theory Spec2Isabelle
  imports Complex_Main
begin

section \<open>Python values: strings, exceptions, log records\<close>

text \<open>
  A Python \<open>str\<close> is a sequence of Unicode code points, so a string is modelled as the list
  of its code points. \<open>ustr\<close> turns an ASCII literal into such a list; the two characters
  outside ASCII that the program names are the pound sign (U+00A3) and the mojibake
  artefact (U+00C2).
\<close>

type_synonym pystr = "nat list"

definition ustr :: "string \<Rightarrow> pystr" where
  "ustr s = map of_char s"

definition pound_sign :: pystr where
  "pound_sign = [163]"

definition dollar_sign :: pystr where
  "dollar_sign = [36]"

definition mojibake :: pystr where
  "mojibake = [194]"

text \<open>
  Exceptions are values. \<open>ValueError\<close> is what \<open>float\<close> and \<open>int\<close> raise on text they
  cannot read, \<open>KeyError\<close> what a data frame raises for a column it does not have,
  \<open>NotNullViolation\<close> what the relational store raises when a null reaches a
  \<open>NOT NULL\<close> column, and \<open>DataError\<close> what it raises for a value that does not fit the
  type of its column.
\<close>

datatype error = ValueError | KeyError | NotNullViolation | DataError

datatype level = INFO | WARNING | ERROR

text \<open>A log record: its level and the message's format string.\<close>

datatype log_record = Log level string

text \<open>
  \<open>str.strip()\<close> removes leading and trailing white space, which for a Python string is
  the following set of code points.
\<close>

definition py_isspace :: "nat \<Rightarrow> bool" where
  "py_isspace c \<longleftrightarrow>
     (9 \<le> c \<and> c \<le> 13) \<or> (28 \<le> c \<and> c \<le> 32) \<or> c = 133 \<or> c = 160 \<or> c = 5760 \<or>
     (8192 \<le> c \<and> c \<le> 8202) \<or> c = 8232 \<or> c = 8233 \<or> c = 8239 \<or> c = 8287 \<or> c = 12288"

definition strip :: "pystr \<Rightarrow> pystr" where
  "strip s = rev (dropWhile py_isspace (rev (dropWhile py_isspace s)))"

definition startswith :: "pystr \<Rightarrow> pystr \<Rightarrow> bool" where
  "startswith s p \<longleftrightarrow> take (length p) s = p"

text \<open>
  \<open>s.replace(old, new)\<close> for a non-empty \<open>old\<close>: occurrences are replaced from the left and do
  not overlap. (For an empty \<open>old\<close> Python puts \<open>new\<close> around every character.)
\<close>

function replace :: "pystr \<Rightarrow> pystr \<Rightarrow> pystr \<Rightarrow> pystr" where
  "replace old new s =
     (if old = [] then new @ concat (map (\<lambda>c. c # new) s)
      else if s = [] then []
      else if startswith s old then new @ replace old new (drop (length old) s)
      else hd s # replace old new (tl s))"
  by pat_completeness auto
termination
  by (relation "measure (\<lambda>(old, new, s). length s)") auto

declare replace.simps [simp del]

text \<open>\<open>sub in s\<close>: the string \<open>sub\<close> occurs in \<open>s\<close> as a contiguous run.\<close>

fun contains :: "pystr \<Rightarrow> pystr \<Rightarrow> bool" where
  "contains [] sub = (sub = [])"
| "contains (c # cs) sub = (startswith (c # cs) sub \<or> contains cs sub)"

subsection \<open>Floating point\<close>

text \<open>
  A Python \<open>float\<close> is an IEEE 754 double: a finite number, an infinity, or NaN. A finite
  double is given by its exact value, a rational number (the sign of a zero is not kept:
  no operation of the program tells \<open>0.0\<close> from \<open>-0.0\<close>). NaN is the null of a float
  column of a data frame, where \<open>None\<close> is held as NaN too: a float, and a cell of such a
  column, is an optional number whose \<open>None\<close> is NaN.
\<close>

datatype pyfloat = Fin rat | PInf | NInf

type_synonym cell = "pyfloat option"

text \<open>Rounding to an integer, a tie going to the even neighbour.\<close>

definition round_half_even :: "rat \<Rightarrow> int" where
  "round_half_even x =
     (let f = \<lfloor>x\<rfloor>; d = x - of_int f
      in if d < 1 / 2 then f else if 1 / 2 < d then f + 1 else if even f then f else f + 1)"

text \<open>
  \<open>fl x\<close> is the double that the real number \<open>x\<close> rounds to (round to nearest, ties to
  even): with \<open>2 ^ e \<le> |x| < 2 ^ (e + 1)\<close> the doubles around \<open>x\<close> are the multiples of
  \<open>2 ^ (e - 52)\<close>, below \<open>2 ^ (- 1022)\<close> those of \<open>2 ^ (- 1074)\<close>, and a result of
  magnitude \<open>2 ^ 1024\<close> or more is an infinity. Every difference, every product and
  every decimal literal is rounded this way.
\<close>

fun log2 :: "nat \<Rightarrow> nat" where
  "log2 n = (if n < 2 then 0 else Suc (log2 (n div 2)))"

declare log2.simps [simp del]

definition scale :: "rat \<Rightarrow> int \<Rightarrow> rat" where
  "scale x e = (if 0 \<le> e then x * 2 ^ nat e else x / 2 ^ nat (- e))"

definition exponent :: "rat \<Rightarrow> int" where
  "exponent x =
     (if 1 \<le> x then int (log2 (nat \<lfloor>x\<rfloor>))
      else let k = int (log2 (nat \<lfloor>1 / x\<rfloor>)) in if scale x k = 1 then - k else - k - 1)"

definition fl :: "rat \<Rightarrow> pyfloat" where
  "fl x =
     (if x = 0 then Fin 0
      else
        let q = max (exponent \<bar>x\<bar>) (- 1022) - 52;
            y = scale (of_int (round_half_even (scale x (- q)))) q
        in if 2 ^ 1024 \<le> y then PInf else if y \<le> - (2 ^ 1024) then NInf else Fin y)"

text \<open>Subtraction, product, absolute value and order of two numbers.\<close>

fun minus_float :: "pyfloat \<Rightarrow> pyfloat \<Rightarrow> cell" where
  "minus_float (Fin x) (Fin y) = Some (fl (x - y))"
| "minus_float (Fin x) PInf = Some NInf"
| "minus_float (Fin x) NInf = Some PInf"
| "minus_float PInf (Fin y) = Some PInf"
| "minus_float PInf PInf = None"
| "minus_float PInf NInf = Some PInf"
| "minus_float NInf (Fin y) = Some NInf"
| "minus_float NInf PInf = Some NInf"
| "minus_float NInf NInf = None"

fun times_float :: "pyfloat \<Rightarrow> pyfloat \<Rightarrow> cell" where
  "times_float (Fin x) (Fin y) = Some (fl (x * y))"
| "times_float (Fin x) PInf = (if x = 0 then None else Some (if 0 < x then PInf else NInf))"
| "times_float (Fin x) NInf = (if x = 0 then None else Some (if 0 < x then NInf else PInf))"
| "times_float PInf (Fin y) = (if y = 0 then None else Some (if 0 < y then PInf else NInf))"
| "times_float NInf (Fin y) = (if y = 0 then None else Some (if 0 < y then NInf else PInf))"
| "times_float PInf PInf = Some PInf"
| "times_float PInf NInf = Some NInf"
| "times_float NInf PInf = Some NInf"
| "times_float NInf NInf = Some PInf"

fun abs_float :: "pyfloat \<Rightarrow> pyfloat" where
  "abs_float (Fin x) = Fin \<bar>x\<bar>"
| "abs_float PInf = PInf"
| "abs_float NInf = PInf"

fun less_float :: "pyfloat \<Rightarrow> pyfloat \<Rightarrow> bool" where
  "less_float (Fin x) (Fin y) \<longleftrightarrow> x < y"
| "less_float (Fin x) PInf \<longleftrightarrow> True"
| "less_float (Fin x) NInf \<longleftrightarrow> False"
| "less_float PInf y \<longleftrightarrow> False"
| "less_float NInf (Fin y) \<longleftrightarrow> True"
| "less_float NInf PInf \<longleftrightarrow> True"
| "less_float NInf NInf \<longleftrightarrow> False"

text \<open>An operation on floats gives NaN when an operand is NaN.\<close>

definition mul :: "cell \<Rightarrow> cell \<Rightarrow> cell" where
  "mul a b = (case a of None \<Rightarrow> None | Some x \<Rightarrow> (case b of None \<Rightarrow> None | Some y \<Rightarrow> times_float x y))"

text \<open>
  \<open>round(x, n)\<close> for a float \<open>x\<close>: the exact value of \<open>x\<close> is rounded to \<open>n\<close> decimals, a tie
  going to the even neighbour, and the result is the double nearest to that decimal. An
  infinity and NaN round to themselves.
\<close>

definition py_round :: "cell \<Rightarrow> nat \<Rightarrow> cell" where
  "py_round x ndigits =
     (case x of
        Some (Fin v) \<Rightarrow> Some (fl (of_int (round_half_even (v * 10 ^ ndigits)) / 10 ^ ndigits))
      | _ \<Rightarrow> x)"

section \<open>Field normalisation\<close>

subsection \<open>\<open>convert_to_pounds\<close> (lines 142 to 166)\<close>

text \<open>
  The built-in \<open>float\<close> is a parameter \<open>py_float\<close> of the model: it returns the float read
  (a number or NaN), or the exception raised. Each call of it stands inside
  \<open>try ... except Exception\<close>, whose handler logs an error and returns \<open>None\<close>. The result
  is the cell that the column of the frame receives (\<open>None\<close> and NaN are the same null
  there) together with the log records written, or the exception that leaves the function.
\<close>

definition conversion_rate :: cell where
  "conversion_rate = Some (fl (75 / 100))"

definition convert_to_pounds ::
  "(pystr \<Rightarrow> error + cell) \<Rightarrow> pystr option \<Rightarrow> error + (cell \<times> log_record list)" where
  "convert_to_pounds py_float price_str =
     (case price_str of
        None \<Rightarrow> Inr (None, [])
      | Some s0 \<Rightarrow>
          if s0 = [] then Inr (None, [])
          else
            let s = strip (replace mojibake [] s0)
            in if startswith s pound_sign then
                 (case py_float (replace pound_sign [] s) of
                    Inr v \<Rightarrow> Inr (v, [])
                  | Inl e \<Rightarrow> Inr (None, [Log ERROR ''Error converting price %s: %s'']))
               else if startswith s dollar_sign then
                 (case py_float (replace dollar_sign [] s) of
                    Inr value \<Rightarrow> Inr (py_round (mul value conversion_rate) 2, [])
                  | Inl e \<Rightarrow> Inr (None, [Log ERROR ''Error converting price %s: %s'']))
               else Inr (None, [Log ERROR ''Unknown currency in price: %s'']))"

subsection \<open>Quantity and review count (\<open>extract_book_data\<close>, lines 91 to 102)\<close>

text \<open>
  \<open>re.search(r'(\d+)', s)\<close> finds the first maximal run of decimal digits. Which code
  points the class \<open>\d\<close> holds is a table of the Unicode database: the parameter \<open>isdigit\<close>.
  The built-in \<open>int\<close> is the parameter \<open>py_int\<close>. The conversion of the quantity stands
  outside any \<open>try\<close>, so an exception of \<open>int\<close> leaves the function; the conversion of the
  review count stands inside one.
\<close>

definition re_search_digits :: "(nat \<Rightarrow> bool) \<Rightarrow> pystr \<Rightarrow> pystr option" where
  "re_search_digits isdigit s =
     (case dropWhile (\<lambda>c. \<not> isdigit c) s of
        [] \<Rightarrow> None
      | c # cs \<Rightarrow> Some (takeWhile isdigit (c # cs)))"

definition extract_available_quantity ::
  "(nat \<Rightarrow> bool) \<Rightarrow> (pystr \<Rightarrow> error + int) \<Rightarrow> pystr option \<Rightarrow> error + int option" where
  "extract_available_quantity isdigit py_int availability_detail =
     (case availability_detail of
        None \<Rightarrow> Inr None
      | Some d \<Rightarrow>
          if d = [] then Inr None
          else
            (case re_search_digits isdigit d of
               None \<Rightarrow> Inr None
             | Some g \<Rightarrow> (case py_int g of Inl e \<Rightarrow> Inl e | Inr n \<Rightarrow> Inr (Some n))))"

definition extract_no_of_reviews ::
  "(pystr \<Rightarrow> error + int) \<Rightarrow> pystr option \<Rightarrow> error + (int \<times> log_record list)" where
  "extract_no_of_reviews py_int no_of_reviews =
     (case no_of_reviews of
        None \<Rightarrow> Inr (0, [])
      | Some s \<Rightarrow>
          (case py_int s of
             Inr n \<Rightarrow> Inr (n, [])
           | Inl e \<Rightarrow> Inr (0, [Log ERROR ''Error converting number of reviews for book '%s': %s''])))"

subsection \<open>Sample readers of numbers\<close>

text \<open>
  Two concrete readers, used where a statement is evaluated on an example. \<open>read_int\<close>
  reads a run of ASCII digits as \<open>int\<close> does, with the limit on the number of digits that
  \<open>int\<close> has by default (\<open>sys.int_info.default_max_str_digits\<close>, 4300): a longer run raises
  \<open>ValueError\<close>. \<open>read_decimal\<close> reads a plain decimal literal of ASCII digits, and the
  words \<open>inf\<close> and \<open>nan\<close>, as \<open>float\<close> does: the double nearest to the decimal. The texts
  on which they raise \<open>ValueError\<close> here and that \<open>int\<close> and \<open>float\<close> would read (a sign, an
  exponent, digits of other scripts) are not used in an example.
\<close>

definition ascii_isdigit :: "nat \<Rightarrow> bool" where
  "ascii_isdigit c \<longleftrightarrow> 48 \<le> c \<and> c \<le> 57"

definition digits_value :: "pystr \<Rightarrow> nat" where
  "digits_value ds = foldl (\<lambda>n c. 10 * n + (c - 48)) 0 ds"

definition max_str_digits :: nat where
  "max_str_digits = 4300"

definition read_int :: "pystr \<Rightarrow> error + int" where
  "read_int s =
     (if s \<noteq> [] \<and> list_all ascii_isdigit s \<and> length s \<le> max_str_digits
      then Inr (int (digits_value s)) else Inl ValueError)"

definition read_decimal :: "pystr \<Rightarrow> error + cell" where
  "read_decimal s =
     (let ip = takeWhile ascii_isdigit s; rest = dropWhile ascii_isdigit s
      in if s = ustr ''inf'' then Inr (Some PInf)
         else if s = ustr ''nan'' then Inr None
         else if ip = [] then Inl ValueError
         else if rest = [] then Inr (Some (fl (of_nat (digits_value ip))))
         else if hd rest = 46 \<and> list_all ascii_isdigit (tl rest) then
           Inr (Some (fl (of_nat (digits_value ip) +
                          of_nat (digits_value (tl rest)) / 10 ^ length (tl rest))))
         else Inl ValueError)"

section \<open>The data frame of \<open>transform_data\<close>\<close>

text \<open>
  A row of the data frame has the fifteen keys of the dictionaries that
  \<open>extract_book_data\<close> builds. The four price columns, the rating, the availability and
  the quantity change their type during the transformation, so their types are
  parameters. A null cell (\<open>None\<close> or \<open>NaN\<close>) is \<open>None\<close>.
\<close>

record ('p, 'r, 'a, 'q) row =
  title :: "pystr option"
  price :: 'p
  rating :: 'r
  availability :: 'a
  category :: "pystr option"
  book_url :: "pystr option"
  book_thumbnail_url :: "pystr option"
  product_description :: "pystr option"
  upc :: "pystr option"
  product_type :: "pystr option"
  price_excl_tax :: 'p
  price_incl_tax :: 'p
  tax :: 'p
  available_quantity :: 'q
  no_of_reviews :: int

type_synonym raw_book = "(pystr option, pystr option, pystr option, int option) row"

text \<open>A row of the frame that \<open>transform_data\<close> returns.\<close>

type_synonym reconciled = "(cell, int, bool, int) row"

text \<open>\<open>df.drop_duplicates()\<close> keeps the first of equal rows, in the order of the frame.\<close>

fun drop_duplicates :: "'a list \<Rightarrow> 'a list" where
  "drop_duplicates [] = []"
| "drop_duplicates (x # xs) = x # drop_duplicates (filter (\<lambda>y. y \<noteq> x) xs)"

text \<open>
  Lines 168 to 174: the four price columns are replaced by their conversions. An
  exception of \<open>convert_to_pounds\<close> would leave \<open>apply\<close>; the log records are written and
  not kept in the frame.
\<close>

definition convert_prices ::
  "(pystr \<Rightarrow> error + cell) \<Rightarrow> (pystr option, 'r, 'a, 'q) row \<Rightarrow> error + (cell, 'r, 'a, 'q) row" where
  "convert_prices py_float r =
     (case convert_to_pounds py_float (price r) of
        Inl e \<Rightarrow> Inl e
      | Inr (v1, l1) \<Rightarrow>
     (case convert_to_pounds py_float (price_excl_tax r) of
        Inl e \<Rightarrow> Inl e
      | Inr (v2, l2) \<Rightarrow>
     (case convert_to_pounds py_float (price_incl_tax r) of
        Inl e \<Rightarrow> Inl e
      | Inr (v3, l3) \<Rightarrow>
     (case convert_to_pounds py_float (tax r) of
        Inl e \<Rightarrow> Inl e
      | Inr (v4, l4) \<Rightarrow>
          Inr \<lparr>title = title r, price = v1, rating = rating r, availability = availability r,
               category = category r, book_url = book_url r,
               book_thumbnail_url = book_thumbnail_url r,
               product_description = product_description r, upc = upc r,
               product_type = product_type r, price_excl_tax = v2, price_incl_tax = v3,
               tax = v4, available_quantity = available_quantity r,
               no_of_reviews = no_of_reviews r\<rparr>))))"

fun apply_rows :: "('a \<Rightarrow> error + 'b) \<Rightarrow> 'a list \<Rightarrow> error + 'b list" where
  "apply_rows f [] = Inr []"
| "apply_rows f (x # xs) =
     (case f x of
        Inl e \<Rightarrow> Inl e
      | Inr y \<Rightarrow> (case apply_rows f xs of Inl e \<Rightarrow> Inl e | Inr ys \<Rightarrow> Inr (y # ys)))"

text \<open>Line 177: \<open>df.dropna(subset=["title"])\<close> keeps the rows whose title is not null.\<close>

definition dropna_title :: "('p, 'r, 'a, 'q) row list \<Rightarrow> ('p, 'r, 'a, 'q) row list" where
  "dropna_title df = filter (\<lambda>r. title r \<noteq> None) df"

subsection \<open>Imputation by category (lines 179 to 181)\<close>

datatype price_field = Price | Price_excl_tax | Price_incl_tax | Tax

definition price_fields :: "price_field list" where
  "price_fields = [Price, Price_excl_tax, Price_incl_tax, Tax]"

fun get_field :: "price_field \<Rightarrow> ('p, 'r, 'a, 'q) row \<Rightarrow> 'p" where
  "get_field Price r = price r"
| "get_field Price_excl_tax r = price_excl_tax r"
| "get_field Price_incl_tax r = price_incl_tax r"
| "get_field Tax r = tax r"

fun set_field :: "price_field \<Rightarrow> 'p \<Rightarrow> ('p, 'r, 'a, 'q) row \<Rightarrow> ('p, 'r, 'a, 'q) row" where
  "set_field Price v r = r\<lparr>price := v\<rparr>"
| "set_field Price_excl_tax v r = r\<lparr>price_excl_tax := v\<rparr>"
| "set_field Price_incl_tax v r = r\<lparr>price_incl_tax := v\<rparr>"
| "set_field Tax v r = r\<lparr>tax := v\<rparr>"

fun dropna :: "'a option list \<Rightarrow> 'a list" where
  "dropna [] = []"
| "dropna (None # xs) = dropna xs"
| "dropna (Some v # xs) = v # dropna xs"

text \<open>
  \<open>x.mean()\<close> skips the nulls and is null for a series without a value. The mean of
  finite values is taken exactly: in which order the values of a group are added, and so
  how the sum is rounded, is left to the library. With an infinity among the values the
  mean is that infinity, and NaN when both infinities occur.
\<close>

fun amount :: "pyfloat \<Rightarrow> rat" where
  "amount (Fin x) = x"
| "amount PInf = 0"
| "amount NInf = 0"

definition mean_float :: "pyfloat list \<Rightarrow> cell" where
  "mean_float vs =
     (if PInf \<in> set vs then (if NInf \<in> set vs then None else Some PInf)
      else if NInf \<in> set vs then Some NInf
      else Some (Fin (sum_list (map amount vs) / of_nat (length vs))))"

definition mean :: "cell list \<Rightarrow> cell" where
  "mean x = (let vs = dropna x in if vs = [] then None else mean_float vs)"

text \<open>
  \<open>df.groupby('category')\<close> drops the rows whose key is null: a group holds the rows of
  one category value, and a row without a category is in no group.
\<close>

definition get_group :: "pystr \<Rightarrow> ('p, 'r, 'a, 'q) row list \<Rightarrow> ('p, 'r, 'a, 'q) row list" where
  "get_group c df = filter (\<lambda>r. category r = Some c) df"

text \<open>
  \<open>df[field] = df.groupby('category')[field].transform(lambda x: x.fillna(x.mean()))\<close>:
  within its group a null cell takes the group's mean and every other cell stays. The
  result of \<open>transform\<close> has no value for a row that is in no group, so the assignment
  leaves a null in that row.
\<close>

definition fillna_mean :: "price_field \<Rightarrow> (cell, 'r, 'a, 'q) row list \<Rightarrow> (cell, 'r, 'a, 'q) row \<Rightarrow> cell" where
  "fillna_mean field df r =
     (case category r of
        None \<Rightarrow> None
      | Some c \<Rightarrow>
          (case get_field field r of
             Some v \<Rightarrow> Some v
           | None \<Rightarrow> mean (map (get_field field) (get_group c df))))"

definition impute_field ::
  "price_field \<Rightarrow> (cell, 'r, 'a, 'q) row list \<Rightarrow> (cell, 'r, 'a, 'q) row list" where
  "impute_field field df = map (\<lambda>r. set_field field (fillna_mean field df r) r) df"

definition impute_prices :: "(cell, 'r, 'a, 'q) row list \<Rightarrow> (cell, 'r, 'a, 'q) row list" where
  "impute_prices df = foldl (\<lambda>d field. impute_field field d) df price_fields"

subsection \<open>Rating, availability, defaults (lines 183 to 197)\<close>

definition rating_map :: "pystr \<Rightarrow> int option" where
  "rating_map s =
     (if s = ustr ''One'' then Some 1
      else if s = ustr ''Two'' then Some 2
      else if s = ustr ''Three'' then Some 3
      else if s = ustr ''Four'' then Some 4
      else if s = ustr ''Five'' then Some 5
      else None)"

text \<open>\<open>df['rating'].map(rating_map).fillna(0).astype(int)\<close>, for one cell.\<close>

definition rating_value :: "pystr option \<Rightarrow> int" where
  "rating_value x =
     (case x of
        None \<Rightarrow> 0
      | Some s \<Rightarrow> (case rating_map s of None \<Rightarrow> 0 | Some n \<Rightarrow> n))"

definition map_rating :: "('p, pystr option, 'a, 'q) row \<Rightarrow> ('p, int, 'a, 'q) row" where
  "map_rating r =
     \<lparr>title = title r, price = price r, rating = rating_value (rating r),
      availability = availability r, category = category r, book_url = book_url r,
      book_thumbnail_url = book_thumbnail_url r,
      product_description = product_description r, upc = upc r,
      product_type = product_type r, price_excl_tax = price_excl_tax r,
      price_incl_tax = price_incl_tax r, tax = tax r,
      available_quantity = available_quantity r, no_of_reviews = no_of_reviews r\<rparr>"

text \<open>\<open>lambda x: True if x and "In stock" in x else False\<close>.\<close>

definition availability_value :: "pystr option \<Rightarrow> bool" where
  "availability_value x =
     (case x of
        None \<Rightarrow> False
      | Some s \<Rightarrow> s \<noteq> [] \<and> contains s (ustr ''In stock''))"

definition map_availability :: "('p, 'r, pystr option, 'q) row \<Rightarrow> ('p, 'r, bool, 'q) row" where
  "map_availability r =
     \<lparr>title = title r, price = price r, rating = rating r,
      availability = availability_value (availability r), category = category r,
      book_url = book_url r, book_thumbnail_url = book_thumbnail_url r,
      product_description = product_description r, upc = upc r,
      product_type = product_type r, price_excl_tax = price_excl_tax r,
      price_incl_tax = price_incl_tax r, tax = tax r,
      available_quantity = available_quantity r, no_of_reviews = no_of_reviews r\<rparr>"

definition fillna :: "'a option \<Rightarrow> 'a \<Rightarrow> 'a option" where
  "fillna x v = (case x of None \<Rightarrow> Some v | Some y \<Rightarrow> Some y)"

definition fillna_category :: "('p, 'r, 'a, 'q) row \<Rightarrow> ('p, 'r, 'a, 'q) row" where
  "fillna_category r = r\<lparr>category := fillna (category r) (ustr ''Others'')\<rparr>"

definition fillna_product_type :: "('p, 'r, 'a, 'q) row \<Rightarrow> ('p, 'r, 'a, 'q) row" where
  "fillna_product_type r = r\<lparr>product_type := fillna (product_type r) (ustr ''Books'')\<rparr>"

text \<open>
  \<open>pd.to_numeric(df['available_quantity'], errors='coerce').fillna(0).astype(int)\<close>: the
  cells are integers or null already.
\<close>

definition numeric_quantity :: "('p, 'r, 'a, int option) row \<Rightarrow> ('p, 'r, 'a, int) row" where
  "numeric_quantity r =
     \<lparr>title = title r, price = price r, rating = rating r, availability = availability r,
      category = category r, book_url = book_url r,
      book_thumbnail_url = book_thumbnail_url r,
      product_description = product_description r, upc = upc r,
      product_type = product_type r, price_excl_tax = price_excl_tax r,
      price_incl_tax = price_incl_tax r, tax = tax r,
      available_quantity = (case available_quantity r of None \<Rightarrow> 0 | Some n \<Rightarrow> n),
      no_of_reviews = no_of_reviews r\<rparr>"

subsection \<open>Consistency repairs (lines 199 to 216)\<close>

text \<open>
  Arithmetic on float columns is the arithmetic of doubles: it gives a null (NaN)
  wherever an operand is null, and a comparison with a null is false. \<open>abs_gt a t\<close> is
  \<open>abs(a) > t\<close>. The tolerance is the float literal \<open>0.01\<close>, the double nearest to 1/100.
\<close>

definition sub :: "cell \<Rightarrow> cell \<Rightarrow> cell" where
  "sub a b = (case a of None \<Rightarrow> None | Some x \<Rightarrow> (case b of None \<Rightarrow> None | Some y \<Rightarrow> minus_float x y))"

definition abs_gt :: "cell \<Rightarrow> pyfloat \<Rightarrow> bool" where
  "abs_gt a t = (case a of None \<Rightarrow> False | Some x \<Rightarrow> less_float t (abs_float x))"

definition tolerance :: pyfloat where
  "tolerance = fl (1 / 100)"

definition price_diff :: "(cell, 'r, 'a, 'q) row \<Rightarrow> cell" where
  "price_diff r = sub (sub (price_incl_tax r) (tax r)) (price_excl_tax r)"

definition tax_repair_row :: "(cell, 'r, 'a, 'q) row \<Rightarrow> (cell, 'r, 'a, 'q) row" where
  "tax_repair_row r =
     (if abs_gt (price_diff r) tolerance
      then r\<lparr>price_excl_tax := sub (price_incl_tax r) (tax r)\<rparr> else r)"

definition tax_repair :: "(cell, 'r, 'a, 'q) row list \<Rightarrow> (cell, 'r, 'a, 'q) row list" where
  "tax_repair df =
     (let inconsistent_rows = filter (\<lambda>r. abs_gt (price_diff r) tolerance) df
      in if inconsistent_rows \<noteq> [] then map tax_repair_row df else df)"

definition price_mismatch :: "(cell, 'r, 'a, 'q) row \<Rightarrow> cell" where
  "price_mismatch r = sub (price r) (price_incl_tax r)"

definition price_repair_row :: "(cell, 'r, 'a, 'q) row \<Rightarrow> (cell, 'r, 'a, 'q) row" where
  "price_repair_row r =
     (if abs_gt (price_mismatch r) tolerance then r\<lparr>price := price_incl_tax r\<rparr> else r)"

definition price_repair :: "(cell, 'r, 'a, 'q) row list \<Rightarrow> (cell, 'r, 'a, 'q) row list" where
  "price_repair df =
     (let inconsistent_price = filter (\<lambda>r. abs_gt (price_mismatch r) tolerance) df
      in if inconsistent_price \<noteq> [] then map price_repair_row df else df)"

subsection \<open>\<open>transform_data\<close> (lines 135 to 218)\<close>

text \<open>
  \<open>pd.DataFrame([])\<close> has no column, so the first \<open>df[field]\<close> raises \<open>KeyError\<close> for an
  empty list of books. \<open>cleaned\<close> is the frame as it stands after line 177, when the
  imputation starts; \<open>reconcile\<close> is the rest of the function.
\<close>

definition cleaned :: "(pystr \<Rightarrow> error + cell) \<Rightarrow> raw_book list \<Rightarrow> error + (cell, pystr option, pystr option, int option) row list" where
  "cleaned py_float books =
     (if books = [] then Inl KeyError
      else
        (case apply_rows (convert_prices py_float) (drop_duplicates books) of
           Inl e \<Rightarrow> Inl e
         | Inr df \<Rightarrow> Inr (dropna_title df)))"

definition finish_row :: "(cell, pystr option, pystr option, int option) row \<Rightarrow> reconciled" where
  "finish_row r =
     numeric_quantity (fillna_product_type (fillna_category (map_availability (map_rating r))))"

definition reconcile :: "(cell, pystr option, pystr option, int option) row list \<Rightarrow> reconciled list" where
  "reconcile df = price_repair (tax_repair (map finish_row (impute_prices df)))"

definition transform_data :: "(pystr \<Rightarrow> error + cell) \<Rightarrow> raw_book list \<Rightarrow> error + reconciled list" where
  "transform_data py_float books =
     (case cleaned py_float books of
        Inl e \<Rightarrow> Inl e
      | Inr df \<Rightarrow> Inr (reconcile df))"

section \<open>The relational store\<close>

text \<open>
  A table is the list of its rows in the order of their insertion. A \<open>SERIAL\<close> column
  draws its values from a sequence, kept as the last value drawn; the sequence advances for
  every row an \<open>INSERT\<close> proposes, also for one that \<open>ON CONFLICT DO NOTHING\<close> then
  skips. The staging table \<open>raw_books\<close> holds the rows \<open>load_to_postgres\<close> wrote (its
  columns \<open>id\<close> and \<open>created_at\<close> are never read); its four price columns are
  \<open>NUMERIC(10, 2)\<close>, decimal numbers or the NaN of that type, which is \<open>None\<close> here. A row
  of the four small dimension tables is the pair of its \<open>id\<close> and its natural key. The
  text columns of the dimension tables are as wide as the staging columns they are filled
  from, and the price columns of the fact table are \<open>NUMERIC\<close> without a bound, so a value
  that the staging table holds fits the column it is copied to. Every
  \<open>CREATE TABLE IF NOT EXISTS\<close> leaves a table that exists as it is, and a table that does
  not exist is the empty table with a fresh sequence.
\<close>

type_synonym book = "(rat option, int, bool, int) row"

record books_details_row =
  bd_id :: int
  bd_title :: pystr
  bd_upc :: "pystr option"
  bd_product_description :: "pystr option"
  bd_book_url :: "pystr option"
  bd_book_thumbnail_url :: "pystr option"
  bd_no_of_reviews :: int

record books_fact_row =
  bf_id :: int
  books_details_id :: "int option"
  bf_price :: "rat option"
  bf_price_excl_tax :: "rat option"
  bf_price_incl_tax :: "rat option"
  bf_tax :: "rat option"
  bf_available_quantity :: int
  category_id :: "int option"
  rating_id :: "int option"
  availability_id :: "int option"
  product_type_id :: "int option"

record db =
  raw_books :: "book list"
  product_type_tbl :: "(int \<times> pystr) list"
  product_type_id_seq :: int
  books_details_tbl :: "books_details_row list"
  books_details_id_seq :: int
  category_info_tbl :: "(int \<times> pystr) list"
  category_info_id_seq :: int
  rating_info_tbl :: "(int \<times> int) list"
  rating_info_id_seq :: int
  availability_info_tbl :: "(int \<times> pystr) list"
  availability_info_id_seq :: int
  books_fact_tbl :: "books_fact_row list"
  books_fact_id_seq :: int

subsection \<open>\<open>load_to_postgres\<close> (lines 222 to 285)\<close>

text \<open>
  The rows of the frame are inserted one by one, in one transaction: the first statement
  that fails raises, and nothing is written then. A value passes three checks on its way
  into its column. The driver refuses a text that holds the character NUL (\<open>ValueError\<close>).
  The store converts each value to the type of its column, in the order of the columns,
  and raises \<open>DataError\<close> for a value that does not fit: a text longer than the \<open>n\<close> of
  \<open>VARCHAR(n)\<close>, unless what exceeds \<open>n\<close> characters is spaces, which are cut off; an
  integer outside the 32 bits of \<open>INTEGER\<close>; a float that \<open>NUMERIC(10, 2)\<close> does not hold.
  Last, the column \<open>title\<close> is \<open>NOT NULL\<close>; the other columns take nulls.

  What becomes of a float in a \<open>NUMERIC(10, 2)\<close> column (the decimal literal that the
  driver writes for the float, its rounding to two decimals, NaN, the infinities) is the
  parameter \<open>numeric\<close> of the model: it returns the value stored, or the exception.
\<close>

definition has_nul :: "pystr option \<Rightarrow> bool" where
  "has_nul x = (case x of None \<Rightarrow> False | Some s \<Rightarrow> 0 \<in> set s)"

definition varchar :: "nat \<Rightarrow> pystr option \<Rightarrow> error + pystr option" where
  "varchar n x =
     (case x of
        None \<Rightarrow> Inr None
      | Some s \<Rightarrow>
          if length s \<le> n then Inr (Some s)
          else if list_all (\<lambda>c. c = 32) (drop n s) then Inr (Some (take n s))
          else Inl DataError)"

definition integer :: "int \<Rightarrow> error + int" where
  "integer n = (if - (2 ^ 31) \<le> n \<and> n < 2 ^ 31 then Inr n else Inl DataError)"

definition bind :: "error + 'a \<Rightarrow> ('a \<Rightarrow> error + 'b) \<Rightarrow> error + 'b" where
  "bind m f = (case m of Inl e \<Rightarrow> Inl e | Inr x \<Rightarrow> f x)"

definition stage_row :: "(cell \<Rightarrow> error + rat option) \<Rightarrow> reconciled \<Rightarrow> error + book" where
  "stage_row numeric r =
     (if has_nul (title r) \<or> has_nul (category r) \<or> has_nul (book_url r) \<or>
         has_nul (book_thumbnail_url r) \<or> has_nul (product_description r) \<or>
         has_nul (upc r) \<or> has_nul (product_type r)
      then Inl ValueError
      else
        bind (varchar 255 (title r)) (\<lambda>c1.
        bind (numeric (price r)) (\<lambda>c2.
        bind (integer (rating r)) (\<lambda>c3.
        bind (varchar 100 (category r)) (\<lambda>c5.
        bind (varchar 50 (upc r)) (\<lambda>c9.
        bind (varchar 50 (product_type r)) (\<lambda>c10.
        bind (numeric (price_excl_tax r)) (\<lambda>c11.
        bind (numeric (price_incl_tax r)) (\<lambda>c12.
        bind (numeric (tax r)) (\<lambda>c13.
        bind (integer (available_quantity r)) (\<lambda>c14.
        bind (integer (no_of_reviews r)) (\<lambda>c15.
          if c1 = None then Inl NotNullViolation
          else
            Inr \<lparr>title = c1, price = c2, rating = c3, availability = availability r,
                 category = c5, book_url = book_url r,
                 book_thumbnail_url = book_thumbnail_url r,
                 product_description = product_description r, upc = c9,
                 product_type = c10, price_excl_tax = c11, price_incl_tax = c12,
                 tax = c13, available_quantity = c14, no_of_reviews = c15\<rparr>))))))))))))"

definition load_to_postgres ::
  "(cell \<Rightarrow> error + rat option) \<Rightarrow> reconciled list \<Rightarrow> db \<Rightarrow> error + db" where
  "load_to_postgres numeric df d =
     (case apply_rows (stage_row numeric) df of
        Inl e \<Rightarrow> Inl e
      | Inr rows \<Rightarrow> Inr (d\<lparr>raw_books := raw_books d @ rows\<rparr>))"

text \<open>
  A sample of the parameter \<open>numeric\<close>, used where a statement is evaluated on an example:
  NaN is stored as the NaN of \<open>NUMERIC\<close>, an infinity is refused, and the double nearest
  to a number of cents below \<open>10 ^ 8\<close> is stored as that number of cents, which is
  the decimal literal that the driver writes for it. The other doubles, refused here, are
  not used in an example.
\<close>

definition numeric_10_2 :: "cell \<Rightarrow> error + rat option" where
  "numeric_10_2 x =
     (case x of
        None \<Rightarrow> Inr None
      | Some PInf \<Rightarrow> Inl DataError
      | Some NInf \<Rightarrow> Inl DataError
      | Some (Fin v) \<Rightarrow>
          let n = round_half_even (v * 100)
          in if fl (of_int n / 100) = Fin v \<and> \<bar>n\<bar> < 10 ^ 10
             then Inr (Some (of_int n / 100)) else Inl DataError)"

subsection \<open>The dimension tables (lines 368 to 405)\<close>

text \<open>
  \<open>INSERT INTO t (key) SELECT DISTINCT ... ON CONFLICT (key) DO NOTHING\<close>: each proposed
  key draws an id; the row is appended unless the table holds the key already.
\<close>

fun insert_on_conflict_do_nothing ::
  "'k list \<Rightarrow> (int \<times> 'k) list \<times> int \<Rightarrow> (int \<times> 'k) list \<times> int" where
  "insert_on_conflict_do_nothing [] (tbl, seq) = (tbl, seq)"
| "insert_on_conflict_do_nothing (k # ks) (tbl, seq) =
     insert_on_conflict_do_nothing ks
       (if k \<in> set (map snd tbl) then tbl else tbl @ [(seq + 1, k)], seq + 1)"

text \<open>
  The natural key columns are \<open>NOT NULL\<close>: a null among the selected values makes the
  statement fail. \<open>SELECT DISTINCT\<close> fixes no order of its rows; the model takes the order
  of first occurrence.
\<close>

definition not_null :: "'a option list \<Rightarrow> error + 'a list" where
  "not_null xs = (if list_ex (\<lambda>x. x = None) xs then Inl NotNullViolation else Inr (dropna xs))"

definition insert_product_type :: "db \<Rightarrow> error + db" where
  "insert_product_type d =
     (case not_null (drop_duplicates (map product_type (raw_books d))) of
        Inl e \<Rightarrow> Inl e
      | Inr ks \<Rightarrow>
          (case insert_on_conflict_do_nothing ks (product_type_tbl d, product_type_id_seq d) of
             (tbl, seq) \<Rightarrow> Inr (d\<lparr>product_type_tbl := tbl, product_type_id_seq := seq\<rparr>)))"

text \<open>
  \<open>books_details\<close> has no unique key besides its \<open>id\<close>: one row is inserted for every
  staging row. Its column \<open>title\<close> is \<open>NOT NULL\<close>.
\<close>

fun insert_details ::
  "book list \<Rightarrow> books_details_row list \<times> int \<Rightarrow> error + (books_details_row list \<times> int)" where
  "insert_details [] (tbl, seq) = Inr (tbl, seq)"
| "insert_details (rb # rbs) (tbl, seq) =
     (case title rb of
        None \<Rightarrow> Inl NotNullViolation
      | Some t \<Rightarrow>
          insert_details rbs
            (tbl @ [\<lparr>bd_id = seq + 1, bd_title = t, bd_upc = upc rb,
                     bd_product_description = product_description rb,
                     bd_book_url = book_url rb,
                     bd_book_thumbnail_url = book_thumbnail_url rb,
                     bd_no_of_reviews = no_of_reviews rb\<rparr>], seq + 1))"

definition insert_books_details :: "db \<Rightarrow> error + db" where
  "insert_books_details d =
     (case insert_details (raw_books d) (books_details_tbl d, books_details_id_seq d) of
        Inl e \<Rightarrow> Inl e
      | Inr (tbl, seq) \<Rightarrow> Inr (d\<lparr>books_details_tbl := tbl, books_details_id_seq := seq\<rparr>))"

definition insert_category_info :: "db \<Rightarrow> error + db" where
  "insert_category_info d =
     (case not_null (drop_duplicates (map category (raw_books d))) of
        Inl e \<Rightarrow> Inl e
      | Inr ks \<Rightarrow>
          (case insert_on_conflict_do_nothing ks (category_info_tbl d, category_info_id_seq d) of
             (tbl, seq) \<Rightarrow> Inr (d\<lparr>category_info_tbl := tbl, category_info_id_seq := seq\<rparr>)))"

text \<open>The ratings are selected \<open>ORDER BY rating ASC\<close>.\<close>

definition insert_rating_info :: "db \<Rightarrow> db" where
  "insert_rating_info d =
     (case insert_on_conflict_do_nothing (sort (drop_duplicates (map rating (raw_books d))))
             (rating_info_tbl d, rating_info_id_seq d) of
        (tbl, seq) \<Rightarrow> d\<lparr>rating_info_tbl := tbl, rating_info_id_seq := seq\<rparr>)"

text \<open>\<open>CASE WHEN availability THEN 'In Stock' ELSE 'Out of Stock' END\<close>.\<close>

definition availability_status :: "bool \<Rightarrow> pystr" where
  "availability_status b = (if b then ustr ''In Stock'' else ustr ''Out of Stock'')"

definition insert_availability_info :: "db \<Rightarrow> db" where
  "insert_availability_info d =
     (case insert_on_conflict_do_nothing
             (drop_duplicates (map (\<lambda>rb. availability_status (availability rb)) (raw_books d)))
             (availability_info_tbl d, availability_info_id_seq d) of
        (tbl, seq) \<Rightarrow> d\<lparr>availability_info_tbl := tbl, availability_info_id_seq := seq\<rparr>)"

definition populate_dimensions :: "db \<Rightarrow> error + db" where
  "populate_dimensions d =
     (case insert_product_type d of
        Inl e \<Rightarrow> Inl e
      | Inr d1 \<Rightarrow>
     (case insert_books_details d1 of
        Inl e \<Rightarrow> Inl e
      | Inr d2 \<Rightarrow>
     (case insert_category_info d2 of
        Inl e \<Rightarrow> Inl e
      | Inr d3 \<Rightarrow> Inr (insert_availability_info (insert_rating_info d3)))))"

subsection \<open>The fact table (lines 407 to 432)\<close>

text \<open>
  A comparison with a null is not true. \<open>xs LEFT JOIN ys ON cond\<close> pairs a row of \<open>xs\<close>
  with every row of \<open>ys\<close> that matches it, and with a null row when none does.
\<close>

definition sql_eq :: "'a option \<Rightarrow> 'a option \<Rightarrow> bool" where
  "sql_eq a b =
     (case a of None \<Rightarrow> False | Some x \<Rightarrow> (case b of None \<Rightarrow> False | Some y \<Rightarrow> x = y))"

definition nullable :: "'b list \<Rightarrow> 'b option list" where
  "nullable ms = (if ms = [] then [None] else map Some ms)"

definition left_join :: "'a list \<Rightarrow> 'b list \<Rightarrow> ('a \<Rightarrow> 'b \<Rightarrow> bool) \<Rightarrow> ('a \<times> 'b option) list" where
  "left_join xs ys cond = concat (map (\<lambda>x. map (Pair x) (nullable (filter (cond x) ys))) xs)"

definition bd_match :: "book \<Rightarrow> books_details_row \<Rightarrow> bool" where
  "bd_match rb bd \<longleftrightarrow> sql_eq (title rb) (Some (bd_title bd)) \<and> sql_eq (upc rb) (bd_upc bd)"

definition ci_match :: "book \<Rightarrow> int \<times> pystr \<Rightarrow> bool" where
  "ci_match rb ci \<longleftrightarrow> sql_eq (category rb) (Some (snd ci))"

definition ri_match :: "book \<Rightarrow> int \<times> int \<Rightarrow> bool" where
  "ri_match rb ri \<longleftrightarrow> rating rb = snd ri"

definition ai_match :: "book \<Rightarrow> int \<times> pystr \<Rightarrow> bool" where
  "ai_match rb ai \<longleftrightarrow> availability_status (availability rb) = snd ai"

definition pt_match :: "book \<Rightarrow> int \<times> pystr \<Rightarrow> bool" where
  "pt_match rb pt \<longleftrightarrow> sql_eq (product_type rb) (Some (snd pt))"

type_synonym joined =
  "((((book \<times> books_details_row option) \<times> (int \<times> pystr) option) \<times> (int \<times> int) option)
      \<times> (int \<times> pystr) option) \<times> (int \<times> pystr) option"

definition fact_select :: "db \<Rightarrow> joined list" where
  "fact_select d =
     left_join
       (left_join
          (left_join
             (left_join
                (left_join (raw_books d) (books_details_tbl d) bd_match)
                (category_info_tbl d) (\<lambda>(rb, bd). ci_match rb))
             (rating_info_tbl d) (\<lambda>((rb, bd), ci). ri_match rb))
          (availability_info_tbl d) (\<lambda>(((rb, bd), ci), ri). ai_match rb))
       (product_type_tbl d) (\<lambda>((((rb, bd), ci), ri), ai). pt_match rb)"

definition fact_of :: "int \<Rightarrow> joined \<Rightarrow> books_fact_row" where
  "fact_of i j =
     (case j of
        (((((rb, bd), ci), ri), ai), pt) \<Rightarrow>
          \<lparr>bf_id = i, books_details_id = map_option bd_id bd, bf_price = price rb,
           bf_price_excl_tax = price_excl_tax rb, bf_price_incl_tax = price_incl_tax rb,
           bf_tax = tax rb, bf_available_quantity = available_quantity rb,
           category_id = map_option fst ci, rating_id = map_option fst ri,
           availability_id = map_option fst ai, product_type_id = map_option fst pt\<rparr>)"

fun insert_facts :: "joined list \<Rightarrow> books_fact_row list \<times> int \<Rightarrow> books_fact_row list \<times> int" where
  "insert_facts [] (tbl, seq) = (tbl, seq)"
| "insert_facts (j # js) (tbl, seq) = insert_facts js (tbl @ [fact_of (seq + 1) j], seq + 1)"

definition insert_books_fact :: "db \<Rightarrow> db" where
  "insert_books_fact d =
     (case insert_facts (fact_select d) (books_fact_tbl d, books_fact_id_seq d) of
        (tbl, seq) \<Rightarrow> d\<lparr>books_fact_tbl := tbl, books_fact_id_seq := seq\<rparr>)"

subsection \<open>\<open>build_data_warehouse\<close> (lines 294 to 436)\<close>

definition build_data_warehouse :: "db \<Rightarrow> error + db" where
  "build_data_warehouse d =
     (case populate_dimensions d of
        Inl e \<Rightarrow> Inl e
      | Inr d' \<Rightarrow> Inr (insert_books_fact d'))"

text \<open>
  The natural key column of each of the four small dimension tables is declared
  \<open>UNIQUE\<close>: in every state of the store no two of its rows hold the same key.
\<close>

definition unique_keys :: "db \<Rightarrow> bool" where
  "unique_keys d \<longleftrightarrow>
     distinct (map snd (product_type_tbl d)) \<and> distinct (map snd (category_info_tbl d)) \<and>
     distinct (map snd (rating_info_tbl d)) \<and> distinct (map snd (availability_info_tbl d))"

section \<open>Sample data\<close>

text \<open>Rows on which the statements below are evaluated.\<close>

definition attic :: raw_book where
  "attic =
     \<lparr>title = Some (ustr ''A Light in the Attic''), price = Some (pound_sign @ ustr ''51.77''),
      rating = Some (ustr ''Three''), availability = Some (ustr ''In stock''),
      category = Some (ustr ''Poetry''), book_url = Some (ustr ''a-light/index.html''),
      book_thumbnail_url = Some (ustr ''2c/da.jpg''), product_description = None,
      upc = Some (ustr ''a897fe39''), product_type = Some (ustr ''Books''),
      price_excl_tax = Some (pound_sign @ ustr ''51.77''),
      price_incl_tax = Some (pound_sign @ ustr ''51.77''),
      tax = Some (pound_sign @ ustr ''0.00''), available_quantity = Some 22,
      no_of_reviews = 0\<rparr>"

text \<open>A reconciled row of the category Poetry with the given four prices.\<close>

definition poem :: "cell \<Rightarrow> cell \<Rightarrow> cell \<Rightarrow> cell \<Rightarrow> reconciled" where
  "poem p e i t =
     \<lparr>title = Some (ustr ''Poems''), price = p, rating = 3, availability = True,
      category = Some (ustr ''Poetry''), book_url = None, book_thumbnail_url = None,
      product_description = None, upc = Some (ustr ''a897fe39''),
      product_type = Some (ustr ''Books''), price_excl_tax = e, price_incl_tax = i,
      tax = t, available_quantity = 22, no_of_reviews = 0\<rparr>"

text \<open>
  The row \<open>attic\<close> as \<open>transform_data\<close> returns it: \<open>float('51.77')\<close> is the double
  \<open>7285979772155331 / 2 ^ 47\<close>.
\<close>

definition attic_row :: reconciled where
  "attic_row =
     \<lparr>title = Some (ustr ''A Light in the Attic''),
      price = Some (Fin (7285979772155331 / 140737488355328)), rating = 3,
      availability = True, category = Some (ustr ''Poetry''),
      book_url = Some (ustr ''a-light/index.html''),
      book_thumbnail_url = Some (ustr ''2c/da.jpg''), product_description = None,
      upc = Some (ustr ''a897fe39''), product_type = Some (ustr ''Books''),
      price_excl_tax = Some (Fin (7285979772155331 / 140737488355328)),
      price_incl_tax = Some (Fin (7285979772155331 / 140737488355328)),
      tax = Some (Fin 0), available_quantity = 22, no_of_reviews = 0\<rparr>"

text \<open>That row as the staging table holds it.\<close>

definition attic_book :: book where
  "attic_book =
     \<lparr>title = Some (ustr ''A Light in the Attic''), price = Some (5177 / 100), rating = 3,
      availability = True, category = Some (ustr ''Poetry''),
      book_url = Some (ustr ''a-light/index.html''),
      book_thumbnail_url = Some (ustr ''2c/da.jpg''), product_description = None,
      upc = Some (ustr ''a897fe39''), product_type = Some (ustr ''Books''),
      price_excl_tax = Some (5177 / 100), price_incl_tax = Some (5177 / 100),
      tax = Some 0, available_quantity = 22, no_of_reviews = 0\<rparr>"

text \<open>
  A row of the frame as it stands when the imputation starts, with the given category
  and the given price in the three price columns.
\<close>

definition quoted :: "pystr option \<Rightarrow> cell \<Rightarrow> (cell, pystr option, pystr option, int option) row" where
  "quoted c p =
     \<lparr>title = Some (ustr ''Poems''), price = p, rating = Some (ustr ''Two''),
      availability = Some (ustr ''In stock''), category = c, book_url = None,
      book_thumbnail_url = None, product_description = None, upc = None,
      product_type = None, price_excl_tax = p, price_incl_tax = p, tax = Some (Fin 0),
      available_quantity = None, no_of_reviews = 0\<rparr>"

text \<open>A store with empty tables, and two staging tables loaded into it.\<close>

definition empty_db :: db where
  "empty_db =
     \<lparr>raw_books = [], product_type_tbl = [], product_type_id_seq = 0,
      books_details_tbl = [], books_details_id_seq = 0,
      category_info_tbl = [], category_info_id_seq = 0,
      rating_info_tbl = [], rating_info_id_seq = 0,
      availability_info_tbl = [], availability_info_id_seq = 0,
      books_fact_tbl = [], books_fact_id_seq = 0\<rparr>"

definition one_book_db :: db where
  "one_book_db = empty_db\<lparr>raw_books := [attic_book]\<rparr>"




text \<open>The store after one run of \<open>build_data_warehouse\<close> on \<open>one_book_db\<close>.\<close>

definition built_once_db :: db where
  "built_once_db =
     \<lparr>raw_books = [attic_book],
      product_type_tbl = [(1, ustr ''Books'')], product_type_id_seq = 1,
      books_details_tbl =
        [\<lparr>bd_id = 1, bd_title = ustr ''A Light in the Attic'', bd_upc = Some (ustr ''a897fe39''),
          bd_product_description = None, bd_book_url = Some (ustr ''a-light/index.html''),
          bd_book_thumbnail_url = Some (ustr ''2c/da.jpg''), bd_no_of_reviews = 0\<rparr>],
      books_details_id_seq = 1,
      category_info_tbl = [(1, ustr ''Poetry'')], category_info_id_seq = 1,
      rating_info_tbl = [(1, 3)], rating_info_id_seq = 1,
      availability_info_tbl = [(1, ustr ''In Stock'')], availability_info_id_seq = 1,
      books_fact_tbl =
        [\<lparr>bf_id = 1, books_details_id = Some 1, bf_price = Some (5177 / 100),
          bf_price_excl_tax = Some (5177 / 100), bf_price_incl_tax = Some (5177 / 100),
          bf_tax = Some 0, bf_available_quantity = 22, category_id = Some 1,
          rating_id = Some 1, availability_id = Some 1, product_type_id = Some 1\<rparr>],
      books_fact_id_seq = 1\<rparr>"


section \<open>Properties of the strings\<close>

lemma startswith_iff: "startswith s p \<longleftrightarrow> (\<exists>post. s = p @ post)"
  unfolding startswith_def
  by (metis append_eq_conv_conj append_take_drop_id)

lemma contains_iff: "contains s p \<longleftrightarrow> (\<exists>pre post. s = pre @ p @ post)"
proof (induction s)
  case Nil
  then show ?case by auto
next
  case (Cons c cs)
  show ?case
  proof
    assume "contains (c # cs) p"
    then consider "startswith (c # cs) p" | "contains cs p" by auto
    then show "\<exists>pre post. c # cs = pre @ p @ post"
    proof cases
      case 1
      then obtain post where "c # cs = p @ post" by (auto simp: startswith_iff)
      then have "c # cs = [] @ p @ post" by simp
      then show ?thesis by blast
    next
      case 2
      then obtain pre post where "cs = pre @ p @ post" using Cons.IH by auto
      then have "c # cs = (c # pre) @ p @ post" by simp
      then show ?thesis by blast
    qed
  next
    assume "\<exists>pre post. c # cs = pre @ p @ post"
    then obtain pre post where e: "c # cs = pre @ p @ post" by blast
    show "contains (c # cs) p"
    proof (cases pre)
      case Nil
      with e have "startswith (c # cs) p" by (auto simp: startswith_iff)
      then show ?thesis by simp
    next
      case (Cons a pre')
      with e have "cs = pre' @ p @ post" by simp
      then have "contains cs p" using Cons.IH by blast
      then show ?thesis by simp
    qed
  qed
qed

section \<open>Evaluation of the sample readers\<close>

lemmas string_eval =
  replace.simps ustr_def mojibake_def pound_sign_def dollar_sign_def strip_def py_isspace_def startswith_def

lemmas reader_eval =
  read_decimal_def read_int_def ascii_isdigit_def digits_value_def

lemma floor_rat_numeral:
  "\<lfloor>numeral a / numeral b :: rat\<rfloor> = numeral a div numeral b"
  "\<lfloor>- (numeral a / numeral b) :: rat\<rfloor> = - numeral a div numeral b"
  "\<lfloor>1 / numeral b :: rat\<rfloor> = 1 div numeral b"
  "\<lfloor>- (1 / numeral b) :: rat\<rfloor> = - 1 div numeral b"
proof -
  show "\<lfloor>numeral a / numeral b :: rat\<rfloor> = numeral a div numeral b"
    using floor_divide_of_int_eq [of "numeral a" "numeral b", where ?'a = rat] by simp
  show "\<lfloor>- (numeral a / numeral b) :: rat\<rfloor> = - numeral a div numeral b"
    using floor_divide_of_int_eq [of "- numeral a" "numeral b", where ?'a = rat] by simp
  show "\<lfloor>1 / numeral b :: rat\<rfloor> = 1 div numeral b"
    using floor_divide_of_int_eq [of 1 "numeral b", where ?'a = rat] by simp
  show "\<lfloor>- (1 / numeral b) :: rat\<rfloor> = - 1 div numeral b"
    using floor_divide_of_int_eq [of "- 1" "numeral b", where ?'a = rat] by simp
qed

lemmas fl_eval =
  fl_def exponent_def scale_def round_half_even_def log2.simps Let_def floor_rat_numeral

lemmas round_eval = py_round_def mul_def conversion_rate_def fl_eval

text \<open>The doubles of some decimal literals.\<close>

lemma tolerance_value: "tolerance = Fin (5764607523034235 / 576460752303423488)"
  by (simp add: tolerance_def fl_eval)

lemma conversion_rate_value: "conversion_rate = Some (Fin (3 / 4))"
  by (simp add: conversion_rate_def fl_eval)

lemma sample_doubles:
  "fl (2 / 100) = Fin (5764607523034235 / 288230376151711744)"
  "fl (5177 / 100) = Fin (7285979772155331 / 140737488355328)"
  "fl (1999 / 100) = Fin (5626684784446013 / 281474976710656)"
  "fl 10 = Fin 10"
  "fl (15 / 2) = Fin (15 / 2)"
  by (simp_all add: fl_eval)

section \<open>Properties of the field normalisation\<close>

text \<open>
  Removing a character, stripping white space, and the first run of digits, each in
  terms that do not mention the function.
\<close>

lemma replace_single: "replace [c] [] s = filter (\<lambda>x. x \<noteq> c) s"
proof (induction s)
  case Nil
  show ?case by (subst replace.simps) simp
next
  case (Cons x xs)
  show ?case by (subst replace.simps) (simp add: startswith_def Cons.IH)
qed

lemma replace_signs:
  "replace mojibake [] s = filter (\<lambda>c. c \<noteq> 194) s"
  "replace pound_sign [] s = filter (\<lambda>c. c \<noteq> 163) s"
  "replace dollar_sign [] s = filter (\<lambda>c. c \<noteq> 36) s"
  by (simp_all add: mojibake_def pound_sign_def dollar_sign_def replace_single)

lemma strip_sandwich:
  assumes "list_all py_isspace l" and "list_all py_isspace t"
    and "m = [] \<or> (\<not> py_isspace (hd m) \<and> \<not> py_isspace (last m))"
  shows "strip (l @ m @ t) = m"
proof -
  from assms(1) have 1: "dropWhile py_isspace (l @ m @ t) = dropWhile py_isspace (m @ t)"
    by (simp add: list_all_iff)
  show ?thesis
  proof (cases "m = []")
    case True
    from assms(1) assms(2) have e: "dropWhile py_isspace (l @ t) = []"
      unfolding dropWhile_eq_Nil_conv by (auto simp: list_all_iff)
    have "strip (l @ t) = []" unfolding strip_def e by simp
    with True show ?thesis by simp
  next
    case False
    with assms(3) have h: "\<not> py_isspace (hd m)" and e: "\<not> py_isspace (last m)" by simp_all
    from False h have "dropWhile py_isspace (m @ t) = m @ t"
      by (cases m) simp_all
    with 1 have 2: "dropWhile py_isspace (l @ m @ t) = m @ t" by simp
    from assms(2) have "dropWhile py_isspace (rev t @ rev m) = dropWhile py_isspace (rev m)"
      by (intro dropWhile_append2) (simp add: list_all_iff)
    moreover from False e have "dropWhile py_isspace (rev m) = rev m"
      by (cases "rev m") (simp_all add: last_rev [symmetric] del: last_rev)
    ultimately show ?thesis using 2 by (simp add: strip_def)
  qed
qed

lemma re_search_digits_run:
  assumes "list_all (\<lambda>c. \<not> isdigit c) pre" and "run \<noteq> []" and "list_all isdigit run"
    and "post = [] \<or> \<not> isdigit (hd post)"
  shows "re_search_digits isdigit (pre @ run @ post) = Some run"
proof -
  from assms(2) obtain c cs where run: "run = c # cs" by (cases run) auto
  from assms(1) have "dropWhile (\<lambda>c. \<not> isdigit c) (pre @ run @ post) =
      dropWhile (\<lambda>c. \<not> isdigit c) (run @ post)"
    by (simp add: list_all_iff)
  also from run assms(3) have "\<dots> = c # cs @ post" by simp
  finally have 1: "dropWhile (\<lambda>c. \<not> isdigit c) (pre @ run @ post) = c # cs @ post" .
  from assms(3) assms(4) have "takeWhile isdigit (run @ post) = run"
    by (cases post) (simp_all add: list_all_iff)
  with run have "takeWhile isdigit (c # cs @ post) = run" by simp
  with 1 show ?thesis by (simp add: re_search_digits_def)
qed

lemma round_half_even_near:
  "\<bar>x - of_int (round_half_even x)\<bar> \<le> 1 / 2 \<and>
   (\<bar>x - of_int (round_half_even x)\<bar> = 1 / 2 \<longrightarrow> even (round_half_even x))"
proof -
  have "of_int \<lfloor>x\<rfloor> \<le> x" "x < of_int \<lfloor>x\<rfloor> + 1" by linarith+
  then show ?thesis
    by (auto simp: round_half_even_def Let_def)
qed

text \<open>
  Claim C5 (price normalisation). Let \<open>s\<close> be the price string after every mojibake
  character and the surrounding white space are removed. If \<open>s\<close> starts with the pound
  sign, the result is the float that \<open>float\<close> reads from \<open>s\<close> without the sign; if it
  starts with the dollar sign, the result is \<open>round(value * 0.75, 2)\<close> for the float read;
  with any other prefix the result is null, with an error logged unless the string is
  empty. The product and the rounding are those of doubles: for a number \<open>x\<close> the product
  is the double nearest to \<open>3x/4\<close>, and \<open>round(y, 2)\<close> is the double nearest to that number
  of cents \<open>k/100\<close> which is nearest to \<open>y\<close>, with an even \<open>k\<close> when \<open>y\<close> lies half-way
  between two; an infinity and NaN stay what they are. The text \<open>$10.00\<close> yields \<open>7.5\<close>,
  and \<open>$0.02\<close> yields \<open>0.01\<close>.
\<close>

theorem convert_to_pounds_by_prefix:
  "s = strip (filter (\<lambda>c. c \<noteq> 194) s0) \<Longrightarrow>
     (startswith s pound_sign \<longrightarrow>
        (\<forall>v. py_float (filter (\<lambda>c. c \<noteq> 163) s) = Inr v \<longrightarrow>
           convert_to_pounds py_float (Some s0) = Inr (v, []))) \<and>
     (\<not> startswith s pound_sign \<and> startswith s dollar_sign \<longrightarrow>
        (\<forall>v. py_float (filter (\<lambda>c. c \<noteq> 36) s) = Inr v \<longrightarrow>
           convert_to_pounds py_float (Some s0) = Inr (py_round (mul v (Some (Fin (3 / 4)))) 2, []))) \<and>
     (\<not> startswith s pound_sign \<and> \<not> startswith s dollar_sign \<longrightarrow>
        convert_to_pounds py_float (Some s0) =
          Inr (None, if s0 = [] then [] else [Log ERROR ''Unknown currency in price: %s''])) \<and>
     (list_all py_isspace l \<and> list_all py_isspace t \<and>
      (m = [] \<or> (\<not> py_isspace (hd m) \<and> \<not> py_isspace (last m))) \<longrightarrow> strip (l @ m @ t) = m) \<and>
     mul (Some (Fin x)) (Some (Fin (3 / 4))) = Some (fl (x * 3 / 4)) \<and>
     mul (Some PInf) (Some (Fin (3 / 4))) = Some PInf \<and> mul None (Some (Fin (3 / 4))) = None \<and>
     (\<exists>k. py_round (Some (Fin y)) 2 = Some (fl (of_int k / 100)) \<and>
          \<bar>y * 100 - of_int k\<bar> \<le> 1 / 2 \<and> (\<bar>y * 100 - of_int k\<bar> = 1 / 2 \<longrightarrow> even k)) \<and>
     py_round (Some PInf) 2 = Some PInf \<and> py_round None 2 = None"
proof -
  assume s: "s = strip (filter (\<lambda>c. c \<noteq> 194) s0)"
  have prefix: "(startswith s pound_sign \<longrightarrow>
        (\<forall>v. py_float (filter (\<lambda>c. c \<noteq> 163) s) = Inr v \<longrightarrow>
           convert_to_pounds py_float (Some s0) = Inr (v, []))) \<and>
     (\<not> startswith s pound_sign \<and> startswith s dollar_sign \<longrightarrow>
        (\<forall>v. py_float (filter (\<lambda>c. c \<noteq> 36) s) = Inr v \<longrightarrow>
           convert_to_pounds py_float (Some s0) = Inr (py_round (mul v (Some (Fin (3 / 4)))) 2, []))) \<and>
     (\<not> startswith s pound_sign \<and> \<not> startswith s dollar_sign \<longrightarrow>
        convert_to_pounds py_float (Some s0) =
          Inr (None, if s0 = [] then [] else [Log ERROR ''Unknown currency in price: %s'']))"
  proof (cases "s0 = []")
    case True
    with s have "s = []" by (simp add: strip_def)
    with True show ?thesis
      by (simp add: convert_to_pounds_def startswith_def pound_sign_def dollar_sign_def)
  next
    case False
    with s show ?thesis
      by (simp add: convert_to_pounds_def conversion_rate_value Let_def replace_signs)
  qed
  have sandwich: "list_all py_isspace l \<and> list_all py_isspace t \<and>
      (m = [] \<or> (\<not> py_isspace (hd m) \<and> \<not> py_isspace (last m))) \<longrightarrow> strip (l @ m @ t) = m"
    using strip_sandwich by blast
  have product: "mul (Some (Fin x)) (Some (Fin (3 / 4))) = Some (fl (x * 3 / 4))"
    "mul (Some PInf) (Some (Fin (3 / 4))) = Some PInf" "mul None (Some (Fin (3 / 4))) = None"
    by (simp_all add: mul_def)
  have "py_round (Some (Fin y)) 2 = Some (fl (of_int (round_half_even (y * 100)) / 100))"
    by (simp add: py_round_def)
  with round_half_even_near [of "y * 100"]
  have rounding: "\<exists>k. py_round (Some (Fin y)) 2 = Some (fl (of_int k / 100)) \<and>
          \<bar>y * 100 - of_int k\<bar> \<le> 1 / 2 \<and> (\<bar>y * 100 - of_int k\<bar> = 1 / 2 \<longrightarrow> even k)"
    by blast
  have other: "py_round (Some PInf) 2 = Some PInf" "py_round None 2 = None"
    by (simp_all add: py_round_def)
  from prefix sandwich product rounding other show ?thesis by blast
qed

lemma dollar_ten:
  "ustr ''$10.00'' = [] @ ustr ''$10.00'' @ []"
  "filter (\<lambda>c. c \<noteq> 194) (ustr ''$10.00'') = ustr ''$10.00''"
  "\<not> startswith (ustr ''$10.00'') pound_sign \<and> startswith (ustr ''$10.00'') dollar_sign"
  "read_decimal (filter (\<lambda>c. c \<noteq> 36) (ustr ''$10.00'')) = Inr (Some (Fin 10))"
  "py_round (mul (Some (Fin 10)) (Some (Fin (3 / 4)))) 2 = Some (Fin (15 / 2))"
  by (simp_all add: string_eval reader_eval round_eval)

lemma two_cents_stripped:
  "strip (filter (\<lambda>c. c \<noteq> 194) (ustr '' $0.02 '')) = ustr ''$0.02''"
  by (simp add: string_eval)

lemma two_cents:
  "\<not> startswith (ustr ''$0.02'') pound_sign \<and> startswith (ustr ''$0.02'') dollar_sign"
  "read_decimal (filter (\<lambda>c. c \<noteq> 36) (ustr ''$0.02'')) =
     Inr (Some (Fin (5764607523034235 / 288230376151711744)))"
  "mul (Some (Fin (5764607523034235 / 288230376151711744))) (Some (Fin (3 / 4))) =
     Some (Fin (1080863910568919 / 72057594037927936))"
  "py_round (Some (Fin (1080863910568919 / 72057594037927936))) 2 =
     Some (Fin (5764607523034235 / 576460752303423488))"
  by (simp_all add: string_eval reader_eval round_eval)

lemma attic_price_stripped:
  "strip (filter (\<lambda>c. c \<noteq> 194) (194 # pound_sign @ ustr ''51.77'')) = pound_sign @ ustr ''51.77''"
  by (simp add: string_eval)

lemma attic_price:
  "startswith (pound_sign @ ustr ''51.77'') pound_sign"
  "read_decimal (filter (\<lambda>c. c \<noteq> 163) (pound_sign @ ustr ''51.77'')) =
     Inr (Some (Fin (7285979772155331 / 140737488355328)))"
  by (simp_all add: string_eval reader_eval round_eval)

theorem convert_to_pounds_by_prefix_witness:
  "convert_to_pounds read_decimal (Some (ustr ''$10.00'')) = Inr (Some (Fin (15 / 2)), []) \<and>
   convert_to_pounds read_decimal (Some (ustr '' $0.02 '')) =
     Inr (Some (Fin (5764607523034235 / 576460752303423488)), []) \<and>
   convert_to_pounds read_decimal (Some (194 # pound_sign @ ustr ''51.77'')) =
     Inr (Some (Fin (7285979772155331 / 140737488355328)), []) \<and>
   strip (ustr '' $0.02 '') = ustr ''$0.02''"
proof -
  have 1: "ustr ''$10.00'' = strip (filter (\<lambda>c. c \<noteq> 194) (ustr ''$10.00''))"
    by (simp add: string_eval)
  have sp: "list_all py_isspace (ustr '' '')" "ustr '' $0.02 '' = ustr '' '' @ ustr ''$0.02'' @ ustr '' ''"
    "\<not> py_isspace (hd (ustr ''$0.02''))" "\<not> py_isspace (last (ustr ''$0.02''))"
    by (simp_all add: string_eval)
  from convert_to_pounds_by_prefix [OF 1, of read_decimal "[]" "[]" "[]" 0 0] dollar_ten
  have a: "convert_to_pounds read_decimal (Some (ustr ''$10.00'')) = Inr (Some (Fin (15 / 2)), [])"
    by simp
  from convert_to_pounds_by_prefix [OF two_cents_stripped [symmetric], of read_decimal
      "ustr '' ''" "ustr '' ''" "ustr ''$0.02''" 0 0] two_cents sp
  have b: "convert_to_pounds read_decimal (Some (ustr '' $0.02 '')) =
     Inr (Some (Fin (5764607523034235 / 576460752303423488)), [])"
    and d: "strip (ustr '' $0.02 '') = ustr ''$0.02''"
    by simp_all
  from convert_to_pounds_by_prefix [OF attic_price_stripped [symmetric], of read_decimal
      "[]" "[]" "[]" 0 0] attic_price
  have c: "convert_to_pounds read_decimal (Some (194 # pound_sign @ ustr ''51.77'')) =
     Inr (Some (Fin (7285979772155331 / 140737488355328)), [])"
    by simp
  from a b c d show ?thesis by simp
qed

text \<open>
  Claim C9 (the normaliser degrades and logs), as amended. The price conversion and the
  reading of the review count return whatever \<open>float\<close> and \<open>int\<close> do. A price that is
  absent or empty is null and nothing is logged. A price text that \<open>float\<close> rejects, and
  one whose prefix is neither the pound nor the dollar sign, becomes null and an error is
  logged; a text that \<open>float\<close> reads is converted and nothing is logged. A review count
  that \<open>int\<close> rejects becomes 0 and an error is logged; one that \<open>int\<close> reads is that
  number, and an absent one is 0. The quantity is null for a text that is absent, empty
  or without a digit, and the number that \<open>int\<close> reads from the first run of digits when
  it reads one; that run is the longest run of digits after the first text without one.
\<close>

theorem normalizer_degrades_and_logs:
  "(\<exists>v lg. convert_to_pounds py_float price_str = Inr (v, lg)) \<and>
   convert_to_pounds py_float None = Inr (None, []) \<and>
   convert_to_pounds py_float (Some []) = Inr (None, []) \<and>
   (s0 \<noteq> [] \<and> s = strip (filter (\<lambda>c. c \<noteq> 194) s0) \<longrightarrow>
      (startswith s pound_sign \<longrightarrow>
         (\<forall>e. py_float (filter (\<lambda>c. c \<noteq> 163) s) = Inl e \<longrightarrow>
            convert_to_pounds py_float (Some s0) =
              Inr (None, [Log ERROR ''Error converting price %s: %s''])) \<and>
         (\<forall>v. py_float (filter (\<lambda>c. c \<noteq> 163) s) = Inr v \<longrightarrow>
            convert_to_pounds py_float (Some s0) = Inr (v, []))) \<and>
      (\<not> startswith s pound_sign \<and> startswith s dollar_sign \<longrightarrow>
         (\<forall>e. py_float (filter (\<lambda>c. c \<noteq> 36) s) = Inl e \<longrightarrow>
            convert_to_pounds py_float (Some s0) =
              Inr (None, [Log ERROR ''Error converting price %s: %s''])) \<and>
         (\<forall>v. py_float (filter (\<lambda>c. c \<noteq> 36) s) = Inr v \<longrightarrow>
            (\<exists>w. convert_to_pounds py_float (Some s0) = Inr (w, [])))) \<and>
      (\<not> startswith s pound_sign \<and> \<not> startswith s dollar_sign \<longrightarrow>
         convert_to_pounds py_float (Some s0) =
           Inr (None, [Log ERROR ''Unknown currency in price: %s'']))) \<and>
   extract_no_of_reviews py_int None = Inr (0, []) \<and>
   (\<forall>n. py_int t = Inr n \<longrightarrow> extract_no_of_reviews py_int (Some t) = Inr (n, [])) \<and>
   (\<forall>e. py_int t = Inl e \<longrightarrow>
      extract_no_of_reviews py_int (Some t) =
        Inr (0, [Log ERROR ''Error converting number of reviews for book '%s': %s''])) \<and>
   extract_available_quantity isdigit py_int None = Inr None \<and>
   extract_available_quantity isdigit py_int (Some []) = Inr None \<and>
   (list_all (\<lambda>c. \<not> isdigit c) d \<longrightarrow>
      extract_available_quantity isdigit py_int (Some d) = Inr None) \<and>
   (list_all (\<lambda>c. \<not> isdigit c) pre \<and> run \<noteq> [] \<and> list_all isdigit run \<and>
    (post = [] \<or> \<not> isdigit (hd post)) \<longrightarrow>
      (\<forall>n. py_int run = Inr n \<longrightarrow>
         extract_available_quantity isdigit py_int (Some (pre @ run @ post)) = Inr (Some n)))"
proof -
  have returns: "\<exists>v lg. convert_to_pounds py_float price_str = Inr (v, lg)"
    by (auto simp: convert_to_pounds_def Let_def split: option.splits sum.splits)
  have absent: "convert_to_pounds py_float None = Inr (None, [])"
    "convert_to_pounds py_float (Some []) = Inr (None, [])"
    by (simp_all add: convert_to_pounds_def)
  have present: "s0 \<noteq> [] \<and> s = strip (filter (\<lambda>c. c \<noteq> 194) s0) \<longrightarrow>
      (startswith s pound_sign \<longrightarrow>
         (\<forall>e. py_float (filter (\<lambda>c. c \<noteq> 163) s) = Inl e \<longrightarrow>
            convert_to_pounds py_float (Some s0) =
              Inr (None, [Log ERROR ''Error converting price %s: %s''])) \<and>
         (\<forall>v. py_float (filter (\<lambda>c. c \<noteq> 163) s) = Inr v \<longrightarrow>
            convert_to_pounds py_float (Some s0) = Inr (v, []))) \<and>
      (\<not> startswith s pound_sign \<and> startswith s dollar_sign \<longrightarrow>
         (\<forall>e. py_float (filter (\<lambda>c. c \<noteq> 36) s) = Inl e \<longrightarrow>
            convert_to_pounds py_float (Some s0) =
              Inr (None, [Log ERROR ''Error converting price %s: %s''])) \<and>
         (\<forall>v. py_float (filter (\<lambda>c. c \<noteq> 36) s) = Inr v \<longrightarrow>
            (\<exists>w. convert_to_pounds py_float (Some s0) = Inr (w, [])))) \<and>
      (\<not> startswith s pound_sign \<and> \<not> startswith s dollar_sign \<longrightarrow>
         convert_to_pounds py_float (Some s0) =
           Inr (None, [Log ERROR ''Unknown currency in price: %s'']))"
    by (simp add: convert_to_pounds_def Let_def replace_signs)
  have reviews: "extract_no_of_reviews py_int None = Inr (0, [])"
    "\<forall>n. py_int t = Inr n \<longrightarrow> extract_no_of_reviews py_int (Some t) = Inr (n, [])"
    "\<forall>e. py_int t = Inl e \<longrightarrow>
      extract_no_of_reviews py_int (Some t) =
        Inr (0, [Log ERROR ''Error converting number of reviews for book '%s': %s''])"
    by (simp_all add: extract_no_of_reviews_def)
  have none: "extract_available_quantity isdigit py_int None = Inr None"
    "extract_available_quantity isdigit py_int (Some []) = Inr None"
    by (simp_all add: extract_available_quantity_def)
  have no_digit: "list_all (\<lambda>c. \<not> isdigit c) d \<longrightarrow>
      extract_available_quantity isdigit py_int (Some d) = Inr None"
  proof
    assume "list_all (\<lambda>c. \<not> isdigit c) d"
    then have e: "dropWhile (\<lambda>c. \<not> isdigit c) d = []" by (simp add: list_all_iff)
    have "re_search_digits isdigit d = None" unfolding re_search_digits_def e by simp
    then show "extract_available_quantity isdigit py_int (Some d) = Inr None"
      by (simp add: extract_available_quantity_def)
  qed
  have digits: "list_all (\<lambda>c. \<not> isdigit c) pre \<and> run \<noteq> [] \<and> list_all isdigit run \<and>
    (post = [] \<or> \<not> isdigit (hd post)) \<longrightarrow>
      (\<forall>n. py_int run = Inr n \<longrightarrow>
         extract_available_quantity isdigit py_int (Some (pre @ run @ post)) = Inr (Some n))"
    using re_search_digits_run [of isdigit pre run post]
    by (auto simp: extract_available_quantity_def)
  from returns absent present reviews none no_digit digits show ?thesis by blast
qed

lemma sample_malformed:
  "ustr ''12,50 EUR'' \<noteq> []"
  "strip (filter (\<lambda>c. c \<noteq> 194) (ustr ''12,50 EUR'')) = ustr ''12,50 EUR''"
  "\<not> startswith (ustr ''12,50 EUR'') pound_sign \<and> \<not> startswith (ustr ''12,50 EUR'') dollar_sign"
  "read_int (ustr ''n/a'') = Inl ValueError"
  by (simp_all add: string_eval reader_eval)

lemma sample_pound_malformed:
  "pound_sign @ ustr ''12,50'' \<noteq> []"
  "strip (filter (\<lambda>c. c \<noteq> 194) (pound_sign @ ustr ''12,50'')) = pound_sign @ ustr ''12,50''"
  "startswith (pound_sign @ ustr ''12,50'') pound_sign"
  "read_decimal (filter (\<lambda>c. c \<noteq> 163) (pound_sign @ ustr ''12,50'')) = Inl ValueError"
  by (simp_all add: string_eval reader_eval)

lemma sample_quantity:
  "list_all (\<lambda>c. \<not> ascii_isdigit c) (ustr ''In stock ('')"
  "ustr ''22'' \<noteq> []" "list_all ascii_isdigit (ustr ''22'')"
  "\<not> ascii_isdigit (hd (ustr '' available)''))"
  "read_int (ustr ''22'') = Inr 22"
  "ustr ''In stock ('' @ ustr ''22'' @ ustr '' available)'' = ustr ''In stock (22 available)''"
  by (simp_all add: string_eval reader_eval max_str_digits_def)

theorem normalizer_degrades_and_logs_witness:
  "convert_to_pounds read_decimal (Some (ustr ''12,50 EUR'')) =
     Inr (None, [Log ERROR ''Unknown currency in price: %s'']) \<and>
   convert_to_pounds read_decimal (Some (pound_sign @ ustr ''12,50'')) =
     Inr (None, [Log ERROR ''Error converting price %s: %s'']) \<and>
   extract_no_of_reviews read_int (Some (ustr ''n/a'')) =
     Inr (0, [Log ERROR ''Error converting number of reviews for book '%s': %s'']) \<and>
   extract_available_quantity ascii_isdigit read_int (Some (ustr ''In stock (22 available)'')) =
     Inr (Some 22)"
proof -
  from normalizer_degrades_and_logs [of read_decimal None "ustr ''12,50 EUR''" "ustr ''12,50 EUR''"
      read_int "ustr ''n/a''" ascii_isdigit "[]" "ustr ''In stock (''" "ustr ''22''"
      "ustr '' available)''"]
    sample_malformed sample_quantity
  have a: "convert_to_pounds read_decimal (Some (ustr ''12,50 EUR'')) =
      Inr (None, [Log ERROR ''Unknown currency in price: %s''])"
    and c: "extract_no_of_reviews read_int (Some (ustr ''n/a'')) =
      Inr (0, [Log ERROR ''Error converting number of reviews for book '%s': %s''])"
    and d: "extract_available_quantity ascii_isdigit read_int (Some (ustr ''In stock (22 available)'')) =
      Inr (Some 22)"
    by simp_all
  from normalizer_degrades_and_logs [of read_decimal None "pound_sign @ ustr ''12,50''"
      "pound_sign @ ustr ''12,50''" read_int "ustr ''n/a''" ascii_isdigit "[]" "[]" "[]" "[]"]
    sample_pound_malformed
  have b: "convert_to_pounds read_decimal (Some (pound_sign @ ustr ''12,50'')) =
      Inr (None, [Log ERROR ''Error converting price %s: %s''])"
    by simp
  from a b c d show ?thesis by simp
qed

lemma long_run:
  "list_all (\<lambda>c. \<not> ascii_isdigit c) (ustr ''In stock ('')"
  "replicate 4301 57 \<noteq> []" "list_all ascii_isdigit (replicate 4301 57)"
  "\<not> ascii_isdigit (hd (ustr '' available)''))"
  "read_int (replicate 4301 57) = Inl ValueError"
  by (simp_all add: string_eval reader_eval max_str_digits_def list_all_iff)

text \<open>
  Claim C9 as stated fails twice. The conversion of the quantity stands outside any
  \<open>try\<close>: \<open>int\<close> refuses a run of 4301 digits, and its \<open>ValueError\<close> leaves the
  extraction. And the price \<open>nan\<close> behind a pound sign is read by \<open>float\<close> as NaN: the
  price becomes null and nothing is logged.
\<close>

theorem quantity_raises_and_nan_unlogged:
  "extract_available_quantity ascii_isdigit read_int
     (Some (ustr ''In stock ('' @ replicate 4301 57 @ ustr '' available)'')) = Inl ValueError \<and>
   convert_to_pounds read_decimal (Some (pound_sign @ ustr ''nan'')) = Inr (None, [])"
proof -
  from long_run have "re_search_digits ascii_isdigit
      (ustr ''In stock ('' @ replicate 4301 57 @ ustr '' available)'') = Some (replicate 4301 57)"
    by (intro re_search_digits_run) simp_all
  moreover have "ustr ''In stock ('' @ replicate 4301 57 @ ustr '' available)'' \<noteq> []"
    by (simp add: ustr_def)
  ultimately have "extract_available_quantity ascii_isdigit read_int
     (Some (ustr ''In stock ('' @ replicate 4301 57 @ ustr '' available)'')) = Inl ValueError"
    using long_run(5) by (simp add: extract_available_quantity_def)
  moreover have "convert_to_pounds read_decimal (Some (pound_sign @ ustr ''nan'')) = Inr (None, [])"
    by (simp add: convert_to_pounds_def string_eval reader_eval)
  ultimately show ?thesis by simp
qed

section \<open>Properties of the data frame\<close>

lemma convert_to_pounds_returns: "\<exists>v lg. convert_to_pounds py_float x = Inr (v, lg)"
  by (auto simp: convert_to_pounds_def Let_def split: option.splits sum.splits)

lemma convert_prices_returns:
  "\<exists>r'. convert_prices py_float r = Inr r' \<and> title r' = title r \<and> category r' = category r"
proof -
  obtain v1 l1 where 1: "convert_to_pounds py_float (price r) = Inr (v1, l1)"
    using convert_to_pounds_returns by blast
  obtain v2 l2 where 2: "convert_to_pounds py_float (price_excl_tax r) = Inr (v2, l2)"
    using convert_to_pounds_returns by blast
  obtain v3 l3 where 3: "convert_to_pounds py_float (price_incl_tax r) = Inr (v3, l3)"
    using convert_to_pounds_returns by blast
  obtain v4 l4 where 4: "convert_to_pounds py_float (tax r) = Inr (v4, l4)"
    using convert_to_pounds_returns by blast
  show ?thesis by (simp add: convert_prices_def 1 2 3 4)
qed

lemma apply_rows_convert:
  "\<exists>ys. apply_rows (convert_prices py_float) xs = Inr ys \<and>
     map title ys = map title xs \<and> map category ys = map category xs"
proof (induction xs)
  case Nil
  show ?case by simp
next
  case (Cons x xs)
  then obtain ys where ys: "apply_rows (convert_prices py_float) xs = Inr ys"
    "map title ys = map title xs" "map category ys = map category xs"
    by blast
  obtain y where y: "convert_prices py_float x = Inr y" "title y = title x" "category y = category x"
    using convert_prices_returns [of py_float x] by auto
  from ys y show ?case by simp
qed

lemma cleaned_cases:
  "(books = [] \<and> cleaned py_float books = Inl KeyError) \<or>
   (books \<noteq> [] \<and> (\<exists>df. cleaned py_float books = Inr df \<and>
      map title df = filter (\<lambda>t. t \<noteq> None) (map title (drop_duplicates books))))"
proof (cases "books = []")
  case True
  then show ?thesis by (simp add: cleaned_def)
next
  case False
  obtain ys where ys: "apply_rows (convert_prices py_float) (drop_duplicates books) = Inr ys"
    "map title ys = map title (drop_duplicates books)"
    using apply_rows_convert by blast
  have "map title (dropna_title ys) = filter (\<lambda>t. t \<noteq> None) (map title ys)"
    by (simp add: dropna_title_def filter_map o_def)
  with False ys show ?thesis by (simp add: cleaned_def)
qed

lemma tax_repair_map: "tax_repair df = map tax_repair_row df"
proof (cases "filter (\<lambda>r. abs_gt (price_diff r) tolerance) df = []")
  case True
  then have "\<forall>r\<in>set df. \<not> abs_gt (price_diff r) tolerance"
    by (simp add: filter_empty_conv)
  then have "map tax_repair_row df = df"
    by (simp add: map_idI tax_repair_row_def)
  with True show ?thesis by (simp add: tax_repair_def)
next
  case False
  then show ?thesis by (simp add: tax_repair_def)
qed

lemma price_repair_map: "price_repair df = map price_repair_row df"
proof (cases "filter (\<lambda>r. abs_gt (price_mismatch r) tolerance) df = []")
  case True
  then have "\<forall>r\<in>set df. \<not> abs_gt (price_mismatch r) tolerance"
    by (simp add: filter_empty_conv)
  then have "map price_repair_row df = df"
    by (simp add: map_idI price_repair_row_def)
  with True show ?thesis by (simp add: price_repair_def)
next
  case False
  then show ?thesis by (simp add: price_repair_def)
qed

lemma set_field_keys:
  "title (set_field f v r) = title r" "rating (set_field f v r) = rating r"
  "availability (set_field f v r) = availability r" "category (set_field f v r) = category r"
  by (cases f; simp)+

lemma get_set_field: "get_field f (set_field g v r) = (if f = g then v else get_field f r)"
  by (cases f; cases g; simp)

lemma fillna_mean_map:
  assumes "\<And>r. category (h r) = category r" and "\<And>r. get_field g (h r) = get_field g r"
  shows "fillna_mean g (map h df) (h r) = fillna_mean g df r"
proof -
  have "map (get_field g) (get_group c (map h df)) = map (get_field g) (get_group c df)" for c
    by (simp add: get_group_def filter_map o_def assms)
  then show ?thesis by (simp add: fillna_mean_def assms split: option.splits)
qed

lemma impute_field_after:
  assumes "\<And>r. category (h r) = category r" and "\<And>r. get_field g (h r) = get_field g r"
  shows "impute_field g (map h df) = map (\<lambda>r. set_field g (fillna_mean g df r) (h r)) df"
  by (simp add: impute_field_def o_def fillna_mean_map [where h = h, OF assms])

lemma impute_prices_map:
  "impute_prices df =
     map (\<lambda>r. r\<lparr>price := fillna_mean Price df r,
                 price_excl_tax := fillna_mean Price_excl_tax df r,
                 price_incl_tax := fillna_mean Price_incl_tax df r,
                 tax := fillna_mean Tax df r\<rparr>) df"
proof -
  have 1: "impute_field Price df = map (\<lambda>r. r\<lparr>price := fillna_mean Price df r\<rparr>) df"
    by (simp add: impute_field_def)
  have 2: "impute_field Price_excl_tax (impute_field Price df) =
      map (\<lambda>r. r\<lparr>price := fillna_mean Price df r,
                 price_excl_tax := fillna_mean Price_excl_tax df r\<rparr>) df"
    unfolding 1 by (subst impute_field_after) simp_all
  have 3: "impute_field Price_incl_tax (impute_field Price_excl_tax (impute_field Price df)) =
      map (\<lambda>r. r\<lparr>price := fillna_mean Price df r,
                 price_excl_tax := fillna_mean Price_excl_tax df r,
                 price_incl_tax := fillna_mean Price_incl_tax df r\<rparr>) df"
    unfolding 2 by (subst impute_field_after) simp_all
  have 4: "impute_field Tax (impute_field Price_incl_tax (impute_field Price_excl_tax (impute_field Price df))) =
      map (\<lambda>r. r\<lparr>price := fillna_mean Price df r,
                 price_excl_tax := fillna_mean Price_excl_tax df r,
                 price_incl_tax := fillna_mean Price_incl_tax df r,
                 tax := fillna_mean Tax df r\<rparr>) df"
    unfolding 3 by (subst impute_field_after) simp_all
  show ?thesis by (simp add: impute_prices_def price_fields_def 4)
qed

lemma reconcile_map:
  "reconcile df = map (\<lambda>r. price_repair_row (tax_repair_row (finish_row r))) (impute_prices df)"
  by (simp add: reconcile_def tax_repair_map price_repair_map)

lemmas finish_defs =
  finish_row_def numeric_quantity_def fillna_product_type_def fillna_category_def
  map_availability_def map_rating_def

lemma finish_row_fields:
  "title (finish_row r) = title r"
  "rating (finish_row r) = rating_value (rating r)"
  "availability (finish_row r) = availability_value (availability r)"
  "category (finish_row r) = fillna (category r) (ustr ''Others'')"
  "price (finish_row r) = price r"
  "price_excl_tax (finish_row r) = price_excl_tax r"
  "price_incl_tax (finish_row r) = price_incl_tax r"
  "tax (finish_row r) = tax r"
  by (simp_all add: finish_defs)

lemma tax_repair_row_fields:
  "title (tax_repair_row r) = title r"
  "rating (tax_repair_row r) = rating r"
  "availability (tax_repair_row r) = availability r"
  "category (tax_repair_row r) = category r"
  "price (tax_repair_row r) = price r"
  "price_incl_tax (tax_repair_row r) = price_incl_tax r"
  "tax (tax_repair_row r) = tax r"
  by (simp_all add: tax_repair_row_def)

lemma price_repair_row_fields:
  "title (price_repair_row r) = title r"
  "rating (price_repair_row r) = rating r"
  "availability (price_repair_row r) = availability r"
  "category (price_repair_row r) = category r"
  "price_excl_tax (price_repair_row r) = price_excl_tax r"
  "price_incl_tax (price_repair_row r) = price_incl_tax r"
  "tax (price_repair_row r) = tax r"
  by (simp_all add: price_repair_row_def)

lemmas row_fields = finish_row_fields tax_repair_row_fields price_repair_row_fields

lemma reconcile_columns:
  "map title (reconcile df) = map title df"
  "map rating (reconcile df) = map (\<lambda>r. rating_value (rating r)) df"
  "map availability (reconcile df) = map (\<lambda>r. availability_value (availability r)) df"
  "map category (reconcile df) = map (\<lambda>r. fillna (category r) (ustr ''Others'')) df"
  by (simp_all add: reconcile_map impute_prices_map o_def row_fields)

lemma tax_repair_row_consistent:
  assumes "sub (price_incl_tax (tax_repair_row r)) (tax (tax_repair_row r)) = Some (Fin x)"
    and "price_excl_tax (tax_repair_row r) \<noteq> None"
  shows "\<exists>d. price_diff (tax_repair_row r) = Some (Fin d) \<and> \<bar>d\<bar> \<le> 5764607523034235 / 576460752303423488"
proof (cases "abs_gt (price_diff r) tolerance")
  case True
  with assms(1) have x: "sub (price_incl_tax r) (tax r) = Some (Fin x)"
    and e: "price_excl_tax (tax_repair_row r) = Some (Fin x)"
    by (simp_all add: tax_repair_row_def)
  from True x e have "price_diff (tax_repair_row r) = Some (fl 0)"
    by (simp add: tax_repair_row_def price_diff_def sub_def)
  then show ?thesis by (simp add: fl_def)
next
  case False
  with assms have x: "sub (price_incl_tax r) (tax r) = Some (Fin x)" and e: "price_excl_tax r \<noteq> None"
    by (simp_all add: tax_repair_row_def)
  from e obtain y where y: "price_excl_tax r = Some y" by auto
  from False x y have n: "\<not> less_float tolerance (abs_float (the (minus_float (Fin x) y))) \<or> minus_float (Fin x) y = None"
    by (auto simp: price_diff_def sub_def abs_gt_def split: option.splits)
  show ?thesis
  proof (cases y)
    case (Fin e')
    with n have "\<not> less_float tolerance (abs_float (fl (x - e')))" by simp
    then obtain d where d: "fl (x - e') = Fin d" "\<bar>d\<bar> \<le> 5764607523034235 / 576460752303423488"
      by (cases "fl (x - e')") (auto simp: tolerance_value)
    with False x y Fin show ?thesis
      by (simp add: tax_repair_row_def price_diff_def sub_def)
  next
    case PInf
    with n show ?thesis by (simp add: tolerance_value)
  next
    case NInf
    with n show ?thesis by (simp add: tolerance_value)
  qed
qed

lemmas transform_eval =
  transform_data_def reconcile_map impute_prices_map cleaned_def dropna_title_def
  convert_prices_def convert_to_pounds_def finish_defs tax_repair_row_def price_repair_row_def
  price_diff_def price_mismatch_def sub_def abs_gt_def tolerance_value fillna_mean_def fillna_def
  rating_value_def rating_map_def availability_value_def

lemma attic_transformed: "transform_data read_decimal [attic] = Inr [attic_row]"
  by (simp add: transform_eval attic_def attic_row_def string_eval reader_eval round_eval)

section \<open>Properties of the reconciliation\<close>

text \<open>
  Claim C7 (rating mapping). The labels \<open>One\<close> to \<open>Five\<close> map to 1 to 5, every other
  cell of the rating column, a null included, maps to 0; the rating column of the
  reconciled frame is this mapping of the raw column, so every record that
  \<open>transform_data\<close> returns has a rating among 0, 1, 2, 3, 4, 5.
\<close>

theorem rating_mapping:
  "rating_value (Some (ustr ''One'')) = 1 \<and> rating_value (Some (ustr ''Two'')) = 2 \<and>
   rating_value (Some (ustr ''Three'')) = 3 \<and> rating_value (Some (ustr ''Four'')) = 4 \<and>
   rating_value (Some (ustr ''Five'')) = 5 \<and>
   (x \<noteq> Some (ustr ''One'') \<and> x \<noteq> Some (ustr ''Two'') \<and> x \<noteq> Some (ustr ''Three'') \<and>
    x \<noteq> Some (ustr ''Four'') \<and> x \<noteq> Some (ustr ''Five'') \<longrightarrow> rating_value x = 0) \<and>
   map rating (reconcile df) = map (\<lambda>r. rating_value (rating r)) df \<and>
   (transform_data py_float books = Inr out \<and> r \<in> set out \<longrightarrow> rating r \<in> {0, 1, 2, 3, 4, 5})"
proof -
  have labels: "rating_value (Some (ustr ''One'')) = 1 \<and> rating_value (Some (ustr ''Two'')) = 2 \<and>
      rating_value (Some (ustr ''Three'')) = 3 \<and> rating_value (Some (ustr ''Four'')) = 4 \<and>
      rating_value (Some (ustr ''Five'')) = 5"
    by (simp add: rating_value_def rating_map_def ustr_def)
  have other: "x \<noteq> Some (ustr ''One'') \<and> x \<noteq> Some (ustr ''Two'') \<and> x \<noteq> Some (ustr ''Three'') \<and>
      x \<noteq> Some (ustr ''Four'') \<and> x \<noteq> Some (ustr ''Five'') \<longrightarrow> rating_value x = 0"
    by (cases x) (simp_all add: rating_value_def rating_map_def)
  have range: "rating_value y \<in> {0, 1, 2, 3, 4, 5}" for y
    by (cases y) (simp_all add: rating_value_def rating_map_def)
  have out: "rating r \<in> {0, 1, 2, 3, 4, 5}"
    if "transform_data py_float books = Inr out" "r \<in> set out"
  proof -
    from that(1) obtain df' where "out = reconcile df'"
      by (auto simp: transform_data_def split: sum.splits)
    with that(2) have "rating r \<in> set (map rating (reconcile df'))" by simp
    then obtain y where "rating r = rating_value y"
      by (auto simp: reconcile_columns)
    with range show ?thesis by simp
  qed
  from labels other out show ?thesis by (simp add: reconcile_columns)
qed

theorem rating_mapping_witness:
  "transform_data read_decimal [attic] = Inr [attic_row] \<and> attic_row \<in> set [attic_row] \<and>
   rating attic = Some (ustr ''Three'') \<and> rating attic_row = 3 \<and>
   rating attic_row \<in> {0, 1, 2, 3, 4, 5}"
  using rating_mapping [of "rating attic" "[]" read_decimal "[attic]" "[attic_row]" attic_row]
    attic_transformed
  by (simp add: attic_def attic_row_def)


lemma in_stock_ne: "ustr ''In stock'' \<noteq> []"
  by (simp add: ustr_def)

text \<open>
  Claim C8 (availability). The normalised availability is true exactly when the raw cell
  is a text in which \<open>In stock\<close> occurs; it is false for every other text and for a null
  cell. The availability column of the reconciled frame is this mapping of the raw column.
\<close>

theorem availability_iff_in_stock:
  "(availability_value x \<longleftrightarrow> (\<exists>s pre post. x = Some s \<and> s = pre @ ustr ''In stock'' @ post)) \<and>
   \<not> availability_value None \<and>
   map availability (reconcile df) = map (\<lambda>r. availability_value (availability r)) df"
  using in_stock_ne
  by (cases x) (auto simp: availability_value_def contains_iff reconcile_columns)

theorem availability_iff_in_stock_witness:
  "availability_value (Some (ustr ''In stock (22 available)'')) \<and>
   \<not> availability_value (Some (ustr ''Out of stock''))"
  using availability_iff_in_stock [of "Some (ustr ''In stock (22 available)'')" "[]"]
    availability_iff_in_stock [of "Some (ustr ''Out of stock'')" "[]"]
  by (simp add: availability_value_def string_eval)


text \<open>
  Claim C1 (tax-consistency repair), as amended. With
  \<open>diff = price_incl_tax - tax - price_excl_tax\<close> in the arithmetic of doubles: a record
  whose \<open>|diff|\<close> exceeds the double 0.01 gets \<open>price_excl_tax = price_incl_tax - tax\<close> and
  keeps every other field; a record whose \<open>|diff|\<close> does not exceed it, or whose \<open>diff\<close> is
  NaN (a null among the three prices, or infinities that cancel), is unchanged. So every
  record after the repair, and every record that \<open>transform_data\<close> returns, whose
  \<open>price_incl_tax - tax\<close> is a finite number and whose \<open>price_excl_tax\<close> is not null has a
  finite \<open>diff\<close> with \<open>|diff| \<le> 0.01\<close>. The prices 10.00, 1.00 and 8.00 are repaired to a
  \<open>price_excl_tax\<close> of 9.00, and the prices 21.00, 1.00 and 19.99, whose \<open>diff\<close> is the
  double \<open>0.010000000000001563\<close>, to one of 20.00.
\<close>

theorem tax_consistency_repair:
  "length (tax_repair df) = length df \<and>
   (k < length df \<and> price_diff (df ! k) = Some d \<and> less_float tolerance (abs_float d) \<longrightarrow>
      tax_repair df ! k =
        (df ! k)\<lparr>price_excl_tax := sub (price_incl_tax (df ! k)) (tax (df ! k))\<rparr>) \<and>
   (k < length df \<and>
    (price_diff (df ! k) = None \<or>
     (\<exists>d'. price_diff (df ! k) = Some d' \<and> \<not> less_float tolerance (abs_float d'))) \<longrightarrow>
      tax_repair df ! k = df ! k) \<and>
   (r \<in> set (tax_repair df) \<and> sub (price_incl_tax r) (tax r) = Some (Fin x) \<and>
    price_excl_tax r \<noteq> None \<longrightarrow>
      (\<exists>y. price_diff r = Some (Fin y) \<and> \<bar>y\<bar> \<le> 5764607523034235 / 576460752303423488)) \<and>
   (transform_data py_float books = Inr out \<and> r \<in> set out \<and>
    sub (price_incl_tax r) (tax r) = Some (Fin x) \<and> price_excl_tax r \<noteq> None \<longrightarrow>
      (\<exists>y. price_diff r = Some (Fin y) \<and> \<bar>y\<bar> \<le> 5764607523034235 / 576460752303423488)) \<and>
   price_diff r = sub (sub (price_incl_tax r) (tax r)) (price_excl_tax r) \<and>
   tolerance = fl (1 / 100) \<and> tolerance = Fin (5764607523034235 / 576460752303423488)"
proof (intro conjI impI)
  show "length (tax_repair df) = length df" by (simp add: tax_repair_map)
next
  assume "k < length df \<and> price_diff (df ! k) = Some d \<and> less_float tolerance (abs_float d)"
  then show "tax_repair df ! k =
        (df ! k)\<lparr>price_excl_tax := sub (price_incl_tax (df ! k)) (tax (df ! k))\<rparr>"
    by (simp add: tax_repair_map tax_repair_row_def abs_gt_def)
next
  assume a: "k < length df \<and>
    (price_diff (df ! k) = None \<or>
     (\<exists>d'. price_diff (df ! k) = Some d' \<and> \<not> less_float tolerance (abs_float d')))"
  then have "\<not> abs_gt (price_diff (df ! k)) tolerance"
    by (auto simp: abs_gt_def)
  with a show "tax_repair df ! k = df ! k"
    by (simp add: tax_repair_map tax_repair_row_def)
next
  assume a: "r \<in> set (tax_repair df) \<and> sub (price_incl_tax r) (tax r) = Some (Fin x) \<and>
    price_excl_tax r \<noteq> None"
  then obtain r0 where "r = tax_repair_row r0" by (auto simp: tax_repair_map)
  with a show "\<exists>y. price_diff r = Some (Fin y) \<and> \<bar>y\<bar> \<le> 5764607523034235 / 576460752303423488"
    using tax_repair_row_consistent by blast
next
  assume a: "transform_data py_float books = Inr out \<and> r \<in> set out \<and>
    sub (price_incl_tax r) (tax r) = Some (Fin x) \<and> price_excl_tax r \<noteq> None"
  then obtain df' where "out = reconcile df'"
    by (auto simp: transform_data_def split: sum.splits)
  with a obtain r0 where r0: "r = price_repair_row (tax_repair_row r0)"
    by (auto simp: reconcile_map)
  with a have "sub (price_incl_tax (tax_repair_row r0)) (tax (tax_repair_row r0)) = Some (Fin x)"
    "price_excl_tax (tax_repair_row r0) \<noteq> None"
    by (simp_all add: price_repair_row_fields)
  then have "\<exists>y. price_diff (tax_repair_row r0) = Some (Fin y) \<and>
      \<bar>y\<bar> \<le> 5764607523034235 / 576460752303423488"
    by (rule tax_repair_row_consistent)
  moreover have "price_diff r = price_diff (tax_repair_row r0)"
    by (simp add: r0 price_diff_def price_repair_row_fields)
  ultimately show "\<exists>y. price_diff r = Some (Fin y) \<and> \<bar>y\<bar> \<le> 5764607523034235 / 576460752303423488"
    by simp
next
  show "price_diff r = sub (sub (price_incl_tax r) (tax r)) (price_excl_tax r)"
    by (simp add: price_diff_def)
next
  show "tolerance = fl (1 / 100)" by (simp add: tolerance_def)
next
  show "tolerance = Fin (5764607523034235 / 576460752303423488)" by (rule tolerance_value)
qed

lemma ten_one_eight:
  "price_diff ([poem (Some (Fin 10)) (Some (Fin 8)) (Some (Fin 10)) (Some (Fin 1))] ! 0) = Some (Fin 1)"
  "less_float tolerance (abs_float (Fin 1))"
  "sub (price_incl_tax ([poem (Some (Fin 10)) (Some (Fin 8)) (Some (Fin 10)) (Some (Fin 1))] ! 0))
       (tax ([poem (Some (Fin 10)) (Some (Fin 8)) (Some (Fin 10)) (Some (Fin 1))] ! 0)) = Some (Fin 9)"
  by (simp_all add: price_diff_def sub_def poem_def tolerance_value fl_eval)

lemma one_penny:
  "price_diff ([poem (Some (Fin 21)) (Some (Fin (5626684784446013 / 281474976710656)))
                     (Some (Fin 21)) (Some (Fin 1))] ! 0) =
     Some (Fin (2814749767107 / 281474976710656))"
  "less_float tolerance (abs_float (Fin (2814749767107 / 281474976710656)))"
  "sub (price_incl_tax ([poem (Some (Fin 21)) (Some (Fin (5626684784446013 / 281474976710656)))
                              (Some (Fin 21)) (Some (Fin 1))] ! 0))
       (tax ([poem (Some (Fin 21)) (Some (Fin (5626684784446013 / 281474976710656)))
                   (Some (Fin 21)) (Some (Fin 1))] ! 0)) = Some (Fin 20)"
  by (simp_all add: price_diff_def sub_def poem_def tolerance_value fl_eval)

lemma repaired_diff:
  "sub (price_incl_tax (poem (Some (Fin 10)) (Some (Fin 9)) (Some (Fin 10)) (Some (Fin 1))))
       (tax (poem (Some (Fin 10)) (Some (Fin 9)) (Some (Fin 10)) (Some (Fin 1)))) = Some (Fin 9)"
  "sub (Some (Fin 9)) (Some (Fin 9)) = Some (Fin 0)"
  by (simp_all add: sub_def poem_def fl_eval)

theorem tax_consistency_repair_witness:
  "tax_repair [poem (Some (Fin 10)) (Some (Fin 8)) (Some (Fin 10)) (Some (Fin 1))] ! 0 =
     poem (Some (Fin 10)) (Some (Fin 9)) (Some (Fin 10)) (Some (Fin 1)) \<and>
   tax_repair [poem (Some (Fin 21)) (Some (Fin (5626684784446013 / 281474976710656)))
                    (Some (Fin 21)) (Some (Fin 1))] ! 0 =
     poem (Some (Fin 21)) (Some (Fin 20)) (Some (Fin 21)) (Some (Fin 1)) \<and>
   price_diff (poem (Some (Fin 10)) (Some (Fin 9)) (Some (Fin 10)) (Some (Fin 1))) = Some (Fin 0)"
proof -
  from tax_consistency_repair [of "[poem (Some (Fin 10)) (Some (Fin 8)) (Some (Fin 10)) (Some (Fin 1))]"
      0 "Fin 1" "poem (Some (Fin 10)) (Some (Fin 9)) (Some (Fin 10)) (Some (Fin 1))" 9
      read_decimal "[attic]" "[attic_row]"]
    ten_one_eight repaired_diff
  have a: "tax_repair [poem (Some (Fin 10)) (Some (Fin 8)) (Some (Fin 10)) (Some (Fin 1))] ! 0 =
     poem (Some (Fin 10)) (Some (Fin 9)) (Some (Fin 10)) (Some (Fin 1))"
    and c: "price_diff (poem (Some (Fin 10)) (Some (Fin 9)) (Some (Fin 10)) (Some (Fin 1))) = Some (Fin 0)"
    by (simp_all add: poem_def)
  from tax_consistency_repair [of "[poem (Some (Fin 21)) (Some (Fin (5626684784446013 / 281474976710656)))
        (Some (Fin 21)) (Some (Fin 1))]"
      0 "Fin (2814749767107 / 281474976710656)"
      "poem (Some (Fin 10)) (Some (Fin 9)) (Some (Fin 10)) (Some (Fin 1))" 9
      read_decimal "[attic]" "[attic_row]"]
    one_penny
  have b: "tax_repair [poem (Some (Fin 21)) (Some (Fin (5626684784446013 / 281474976710656)))
                    (Some (Fin 21)) (Some (Fin 1))] ! 0 =
     poem (Some (Fin 21)) (Some (Fin 20)) (Some (Fin 21)) (Some (Fin 1))"
    by (simp add: poem_def)
  from a b c show ?thesis by simp
qed

text \<open>
  Claim C1 as stated fails for a price that is infinite: \<open>float\<close> reads \<open>inf\<close>, the
  repair sets \<open>price_excl_tax\<close> to \<open>inf - 0.0\<close>, and in the record returned the three
  prices are not null while \<open>inf - 0.0 - inf\<close> is NaN, which is not within the tolerance.
\<close>

theorem infinite_price_not_reconciled:
  "transform_data read_decimal [attic\<lparr>price_incl_tax := Some (pound_sign @ ustr ''inf'')\<rparr>] =
     Inr [attic_row\<lparr>price := Some PInf, price_excl_tax := Some PInf, price_incl_tax := Some PInf\<rparr>] \<and>
   tax attic_row = Some (Fin 0) \<and>
   price_diff (attic_row\<lparr>price := Some PInf, price_excl_tax := Some PInf,
                         price_incl_tax := Some PInf\<rparr>) = None"
  by (simp add: transform_eval attic_def attic_row_def string_eval reader_eval round_eval)










lemma reconcile_null_category:
  "k < length df \<Longrightarrow> category (df ! k) = None \<Longrightarrow>
   category (reconcile df ! k) = Some (ustr ''Others'') \<and> price (reconcile df ! k) = None \<and>
   price_excl_tax (reconcile df ! k) = None \<and> price_incl_tax (reconcile df ! k) = None \<and>
   tax (reconcile df ! k) = None"
  by (simp add: reconcile_map impute_prices_map fillna_mean_def finish_defs fillna_def
      tax_repair_row_def price_repair_row_def price_diff_def price_mismatch_def sub_def abs_gt_def)

text \<open>
  Claim C10 (records without a category are not imputed). The imputation runs before the
  category is defaulted, and grouping drops the null keys: a record whose category is
  null when the imputation starts is in no group, so the result of the imputation has a
  null in each of its four price fields. The repairs leave nulls alone, and only then is
  its category set to \<open>Others\<close>: in the reconciled frame the record has the category
  \<open>Others\<close> and four null prices, whatever the records of a category named \<open>Others\<close>
  hold.
\<close>

theorem null_category_not_imputed:
  "(k < length df \<and> category (df ! k) = None \<longrightarrow>
      price (impute_prices df ! k) = None \<and> price_excl_tax (impute_prices df ! k) = None \<and>
      price_incl_tax (impute_prices df ! k) = None \<and> tax (impute_prices df ! k) = None) \<and>
   (cleaned py_float books = Inr df \<longrightarrow> transform_data py_float books = Inr (reconcile df)) \<and>
   length (reconcile df) = length df \<and>
   (k < length df \<and> category (df ! k) = None \<longrightarrow>
      category (reconcile df ! k) = Some (ustr ''Others'') \<and> price (reconcile df ! k) = None \<and>
      price_excl_tax (reconcile df ! k) = None \<and> price_incl_tax (reconcile df ! k) = None \<and>
      tax (reconcile df ! k) = None)"
proof (intro conjI impI)
  assume "k < length df \<and> category (df ! k) = None"
  then show "price (impute_prices df ! k) = None" "price_excl_tax (impute_prices df ! k) = None"
    "price_incl_tax (impute_prices df ! k) = None" "tax (impute_prices df ! k) = None"
    by (simp_all add: impute_prices_map fillna_mean_def)
next
  assume "cleaned py_float books = Inr df"
  then show "transform_data py_float books = Inr (reconcile df)"
    by (simp add: transform_data_def)
next
  show "length (reconcile df) = length df"
    by (simp add: reconcile_map impute_prices_map)
next
  assume a: "k < length df \<and> category (df ! k) = None"
  then show "category (reconcile df ! k) = Some (ustr ''Others'')" "price (reconcile df ! k) = None"
    "price_excl_tax (reconcile df ! k) = None" "price_incl_tax (reconcile df ! k) = None"
    "tax (reconcile df ! k) = None"
    using reconcile_null_category [of k df] by simp_all
qed

lemma others_priced:
  "price (reconcile [quoted None (Some (Fin 10)), quoted (Some (ustr ''Others'')) (Some (Fin 30)),
      quoted (Some (ustr ''Others'')) None] ! 2) = Some (Fin 30)"
  by (simp add: reconcile_map impute_prices_map fillna_mean_def finish_defs fillna_def
      tax_repair_row_def price_repair_row_def price_diff_def price_mismatch_def sub_def abs_gt_def
      tolerance_value get_group_def mean_def mean_float_def quoted_def ustr_def fl_eval)

theorem null_category_not_imputed_witness:
  "category (reconcile [quoted None (Some (Fin 10)), quoted (Some (ustr ''Others'')) (Some (Fin 30)),
      quoted (Some (ustr ''Others'')) None] ! 0) = Some (ustr ''Others'') \<and>
   price (reconcile [quoted None (Some (Fin 10)), quoted (Some (ustr ''Others'')) (Some (Fin 30)),
      quoted (Some (ustr ''Others'')) None] ! 0) = None \<and>
   price (reconcile [quoted None (Some (Fin 10)), quoted (Some (ustr ''Others'')) (Some (Fin 30)),
      quoted (Some (ustr ''Others'')) None] ! 2) = Some (Fin 30)"
  using null_category_not_imputed [of 0 "[quoted None (Some (Fin 10)), quoted (Some (ustr ''Others'')) (Some (Fin 30)),
      quoted (Some (ustr ''Others'')) None]" read_decimal "[attic]"]
    others_priced
  by (simp add: quoted_def)

section \<open>Properties of the dimension tables\<close>

lemma insert_keys:
  "set (map snd (fst (insert_on_conflict_do_nothing ks (tbl, seq)))) = set (map snd tbl) \<union> set ks"
  by (induction ks arbitrary: tbl seq) auto

lemma insert_distinct:
  "distinct (map snd tbl) \<Longrightarrow> distinct (map snd (fst (insert_on_conflict_do_nothing ks (tbl, seq))))"
  by (induction ks arbitrary: tbl seq) auto

lemma insert_present:
  "set ks \<subseteq> set (map snd tbl) \<Longrightarrow> fst (insert_on_conflict_do_nothing ks (tbl, seq)) = tbl"
  by (induction ks arbitrary: tbl seq) auto

lemma insert_twice:
  "fst (insert_on_conflict_do_nothing ks (insert_on_conflict_do_nothing ks (tbl, seq))) =
   fst (insert_on_conflict_do_nothing ks (tbl, seq))"
proof -
  obtain tbl' seq' where r: "insert_on_conflict_do_nothing ks (tbl, seq) = (tbl', seq')"
    by (cases "insert_on_conflict_do_nothing ks (tbl, seq)")
  then have "set ks \<subseteq> set (map snd tbl')"
    using insert_keys [of ks tbl seq] by auto
  then show ?thesis by (simp add: r insert_present)
qed

lemma insert_details_length:
  "insert_details rbs (tbl, seq) = Inr (tbl', seq') \<Longrightarrow> length tbl' = length tbl + length rbs"
  by (induction rbs arbitrary: tbl seq) (auto split: option.splits)

lemma insert_details_titled:
  "insert_details rbs (tbl, seq) = Inr (tbl', seq') \<Longrightarrow> \<not> list_ex (\<lambda>r. title r = None) rbs"
  by (induction rbs arbitrary: tbl seq) (auto split: option.splits)

lemma insert_details_returns:
  "\<not> list_ex (\<lambda>r. title r = None) rbs \<Longrightarrow> \<exists>tbl' seq'. insert_details rbs (tbl, seq) = Inr (tbl', seq')"
  by (induction rbs arbitrary: tbl seq) (auto split: option.splits)

lemma populate_dimensions_result:
  assumes "populate_dimensions d = Inr d'"
  shows "raw_books d' = raw_books d"
    and "books_fact_tbl d' = books_fact_tbl d"
    and "books_fact_id_seq d' = books_fact_id_seq d"
    and "product_type_tbl d' =
      fst (insert_on_conflict_do_nothing (dropna (drop_duplicates (map product_type (raw_books d))))
            (product_type_tbl d, product_type_id_seq d))"
    and "category_info_tbl d' =
      fst (insert_on_conflict_do_nothing (dropna (drop_duplicates (map category (raw_books d))))
            (category_info_tbl d, category_info_id_seq d))"
    and "rating_info_tbl d' =
      fst (insert_on_conflict_do_nothing (sort (drop_duplicates (map rating (raw_books d))))
            (rating_info_tbl d, rating_info_id_seq d))"
    and "availability_info_tbl d' =
      fst (insert_on_conflict_do_nothing
            (drop_duplicates (map (\<lambda>rb. availability_status (availability rb)) (raw_books d)))
            (availability_info_tbl d, availability_info_id_seq d))"
    and "length (books_details_tbl d') = length (books_details_tbl d) + length (raw_books d)"
    and "\<not> list_ex (\<lambda>x. x = None) (drop_duplicates (map product_type (raw_books d)))"
    and "\<not> list_ex (\<lambda>x. x = None) (drop_duplicates (map category (raw_books d)))"
    and "\<not> list_ex (\<lambda>r. title r = None) (raw_books d)"
proof -
  from assms obtain d1 d2 d3 where
    s1: "insert_product_type d = Inr d1" and s2: "insert_books_details d1 = Inr d2" and
    s3: "insert_category_info d2 = Inr d3" and
    s4: "d' = insert_availability_info (insert_rating_info d3)"
    by (auto simp: populate_dimensions_def split: sum.splits)
  from s1 obtain ks1 where k1: "not_null (drop_duplicates (map product_type (raw_books d))) = Inr ks1"
    and d1: "d1 = d\<lparr>product_type_tbl :=
          fst (insert_on_conflict_do_nothing ks1 (product_type_tbl d, product_type_id_seq d)),
        product_type_id_seq :=
          snd (insert_on_conflict_do_nothing ks1 (product_type_tbl d, product_type_id_seq d))\<rparr>"
    by (auto simp: insert_product_type_def case_prod_beta split: sum.splits)
  from s2 obtain tbl2 seq2 where
    i2: "insert_details (raw_books d1) (books_details_tbl d1, books_details_id_seq d1) = Inr (tbl2, seq2)"
    and d2: "d2 = d1\<lparr>books_details_tbl := tbl2, books_details_id_seq := seq2\<rparr>"
    by (auto simp: insert_books_details_def split: sum.splits)
  from s3 obtain ks3 where k3: "not_null (drop_duplicates (map category (raw_books d2))) = Inr ks3"
    and d3: "d3 = d2\<lparr>category_info_tbl :=
          fst (insert_on_conflict_do_nothing ks3 (category_info_tbl d2, category_info_id_seq d2)),
        category_info_id_seq :=
          snd (insert_on_conflict_do_nothing ks3 (category_info_tbl d2, category_info_id_seq d2))\<rparr>"
    by (auto simp: insert_category_info_def case_prod_beta split: sum.splits)
  from k1 have n1: "\<not> list_ex (\<lambda>x. x = None) (drop_duplicates (map product_type (raw_books d)))"
    and ks1: "ks1 = dropna (drop_duplicates (map product_type (raw_books d)))"
    by (auto simp: not_null_def split: if_splits)
  have rb: "raw_books d2 = raw_books d" by (simp add: d2 d1)
  from k3 have n3: "\<not> list_ex (\<lambda>x. x = None) (drop_duplicates (map category (raw_books d)))"
    and ks3: "ks3 = dropna (drop_duplicates (map category (raw_books d)))"
    by (auto simp: not_null_def rb split: if_splits)
  show "raw_books d' = raw_books d"
    by (simp add: s4 d3 d2 d1 insert_availability_info_def insert_rating_info_def case_prod_beta)
  show "books_fact_tbl d' = books_fact_tbl d"
    by (simp add: s4 d3 d2 d1 insert_availability_info_def insert_rating_info_def case_prod_beta)
  show "books_fact_id_seq d' = books_fact_id_seq d"
    by (simp add: s4 d3 d2 d1 insert_availability_info_def insert_rating_info_def case_prod_beta)
  show "product_type_tbl d' =
      fst (insert_on_conflict_do_nothing (dropna (drop_duplicates (map product_type (raw_books d))))
            (product_type_tbl d, product_type_id_seq d))"
    by (simp add: s4 d3 d2 d1 ks1 insert_availability_info_def insert_rating_info_def case_prod_beta)
  show "category_info_tbl d' =
      fst (insert_on_conflict_do_nothing (dropna (drop_duplicates (map category (raw_books d))))
            (category_info_tbl d, category_info_id_seq d))"
    by (simp add: s4 d3 d2 d1 ks3 insert_availability_info_def insert_rating_info_def case_prod_beta)
  show "rating_info_tbl d' =
      fst (insert_on_conflict_do_nothing (sort (drop_duplicates (map rating (raw_books d))))
            (rating_info_tbl d, rating_info_id_seq d))"
    by (simp add: s4 d3 d2 d1 insert_availability_info_def insert_rating_info_def case_prod_beta)
  show "availability_info_tbl d' =
      fst (insert_on_conflict_do_nothing
            (drop_duplicates (map (\<lambda>rb. availability_status (availability rb)) (raw_books d)))
            (availability_info_tbl d, availability_info_id_seq d))"
    by (simp add: s4 d3 d2 d1 insert_availability_info_def insert_rating_info_def case_prod_beta)
  from i2 have "length tbl2 = length (books_details_tbl d1) + length (raw_books d1)"
    by (rule insert_details_length)
  then show "length (books_details_tbl d') = length (books_details_tbl d) + length (raw_books d)"
    by (simp add: s4 d3 d2 d1 insert_availability_info_def insert_rating_info_def case_prod_beta)
  show "\<not> list_ex (\<lambda>x. x = None) (drop_duplicates (map product_type (raw_books d)))" by (rule n1)
  show "\<not> list_ex (\<lambda>x. x = None) (drop_duplicates (map category (raw_books d)))" by (rule n3)
  from i2 have "\<not> list_ex (\<lambda>r. title r = None) (raw_books d1)" by (rule insert_details_titled)
  then show "\<not> list_ex (\<lambda>r. title r = None) (raw_books d)" by (simp add: d1)
qed

lemma populate_dimensions_returns:
  assumes "\<not> list_ex (\<lambda>x. x = None) (drop_duplicates (map product_type (raw_books d)))"
    and "\<not> list_ex (\<lambda>x. x = None) (drop_duplicates (map category (raw_books d)))"
    and "\<not> list_ex (\<lambda>r. title r = None) (raw_books d)"
  shows "\<exists>d'. populate_dimensions d = Inr d'"
proof -
  obtain d1 where s1: "insert_product_type d = Inr d1" and r1: "raw_books d1 = raw_books d"
    using assms(1) by (auto simp: insert_product_type_def not_null_def case_prod_beta)
  obtain tbl2 seq2 where
    "insert_details (raw_books d1) (books_details_tbl d1, books_details_id_seq d1) = Inr (tbl2, seq2)"
    using insert_details_returns assms(3) r1 by metis
  then obtain d2 where s2: "insert_books_details d1 = Inr d2" and r2: "raw_books d2 = raw_books d"
    using r1 by (auto simp: insert_books_details_def)
  obtain d3 where s3: "insert_category_info d2 = Inr d3"
    using assms(2) r2 by (auto simp: insert_category_info_def not_null_def case_prod_beta)
  show ?thesis by (simp add: populate_dimensions_def s1 s2 s3)
qed

lemma insert_books_fact_frame:
  "raw_books (insert_books_fact d) = raw_books d"
  "product_type_tbl (insert_books_fact d) = product_type_tbl d"
  "category_info_tbl (insert_books_fact d) = category_info_tbl d"
  "rating_info_tbl (insert_books_fact d) = rating_info_tbl d"
  "availability_info_tbl (insert_books_fact d) = availability_info_tbl d"
  "books_details_tbl (insert_books_fact d) = books_details_tbl d"
  by (simp_all add: insert_books_fact_def case_prod_beta)


lemma insert_again:
  "fst (insert_on_conflict_do_nothing ks (fst (insert_on_conflict_do_nothing ks (tbl, seq)), seq')) =
   fst (insert_on_conflict_do_nothing ks (tbl, seq))"
proof (rule insert_present)
  show "set ks \<subseteq> set (map snd (fst (insert_on_conflict_do_nothing ks (tbl, seq))))"
    unfolding insert_keys by blast
qed

text \<open>
  Claim C3 (idempotent dimension build). When \<open>build_data_warehouse\<close> has run on a
  staging table, a second run on the same staging table returns without an error and
  leaves the tables \<open>product_type\<close>, \<open>category_info\<close>, \<open>rating_info\<close> and
  \<open>availability_info\<close> as they are: every proposed key is in conflict and skipped. A run
  keeps the natural keys of these four tables unique. The table \<open>books_details\<close> is the
  exception: the second run adds one row for every staging row again.
\<close>

theorem dimension_build_idempotent:
  "build_data_warehouse d = Inr d1 \<longrightarrow>
     (\<exists>d2. build_data_warehouse d1 = Inr d2 \<and>
        product_type_tbl d2 = product_type_tbl d1 \<and>
        category_info_tbl d2 = category_info_tbl d1 \<and>
        rating_info_tbl d2 = rating_info_tbl d1 \<and>
        availability_info_tbl d2 = availability_info_tbl d1 \<and>
        length (books_details_tbl d2) = length (books_details_tbl d1) + length (raw_books d)) \<and>
     (unique_keys d \<longrightarrow> unique_keys d1)"
proof
  assume b: "build_data_warehouse d = Inr d1"
  then obtain p where p: "populate_dimensions d = Inr p" and d1: "d1 = insert_books_fact p"
    by (auto simp: build_data_warehouse_def split: sum.splits)
  note r = populate_dimensions_result [OF p]
  have rb: "raw_books d1 = raw_books d" by (simp add: d1 insert_books_fact_frame r)
  have "\<exists>p2. populate_dimensions d1 = Inr p2"
    by (rule populate_dimensions_returns) (simp_all add: rb r)
  then obtain p2 where p2: "populate_dimensions d1 = Inr p2" by blast
  note r2 = populate_dimensions_result [OF p2]
  let ?d2 = "insert_books_fact p2"
  have b2: "build_data_warehouse d1 = Inr ?d2" by (simp add: build_data_warehouse_def p2)
  have pt: "product_type_tbl ?d2 = product_type_tbl d1"
    by (simp add: insert_books_fact_frame r2 rb insert_again d1 r)
  have ci: "category_info_tbl ?d2 = category_info_tbl d1"
    by (simp add: insert_books_fact_frame r2 rb insert_again d1 r)
  have ri: "rating_info_tbl ?d2 = rating_info_tbl d1"
    by (simp add: insert_books_fact_frame r2 rb insert_again d1 r)
  have ai: "availability_info_tbl ?d2 = availability_info_tbl d1"
    by (simp add: insert_books_fact_frame r2 rb insert_again d1 r)
  have bd: "length (books_details_tbl ?d2) = length (books_details_tbl d1) + length (raw_books d)"
    by (simp add: insert_books_fact_frame r2 rb)
  have u: "unique_keys d1" if "unique_keys d"
    using that by (simp add: unique_keys_def d1 insert_books_fact_frame r insert_distinct)
  from b2 pt ci ri ai bd u
  show "(\<exists>d2. build_data_warehouse d1 = Inr d2 \<and>
        product_type_tbl d2 = product_type_tbl d1 \<and>
        category_info_tbl d2 = category_info_tbl d1 \<and>
        rating_info_tbl d2 = rating_info_tbl d1 \<and>
        availability_info_tbl d2 = availability_info_tbl d1 \<and>
        length (books_details_tbl d2) = length (books_details_tbl d1) + length (raw_books d)) \<and>
     (unique_keys d \<longrightarrow> unique_keys d1)"
    by blast
qed

lemmas store_eval =
  build_data_warehouse_def populate_dimensions_def insert_product_type_def
  insert_books_details_def insert_category_info_def insert_rating_info_def
  insert_availability_info_def insert_books_fact_def not_null_def availability_status_def
  fact_select_def left_join_def nullable_def fact_of_def bd_match_def ci_match_def ri_match_def
  ai_match_def pt_match_def sql_eq_def

lemma built_once: "build_data_warehouse one_book_db = Inr built_once_db"
  by (simp add: store_eval one_book_db_def empty_db_def built_once_db_def attic_book_def ustr_def)

theorem dimension_build_idempotent_witness:
  "\<exists>d2. build_data_warehouse built_once_db = Inr d2 \<and>
     product_type_tbl d2 = [(1, ustr ''Books'')] \<and> category_info_tbl d2 = [(1, ustr ''Poetry'')] \<and>
     rating_info_tbl d2 = [(1, 3)] \<and> availability_info_tbl d2 = [(1, ustr ''In Stock'')] \<and>
     length (books_details_tbl d2) = 2"
proof -
  from dimension_build_idempotent [of one_book_db built_once_db] built_once
  obtain d2 where d2: "build_data_warehouse built_once_db = Inr d2"
    "product_type_tbl d2 = product_type_tbl built_once_db"
    "category_info_tbl d2 = category_info_tbl built_once_db"
    "rating_info_tbl d2 = rating_info_tbl built_once_db"
    "availability_info_tbl d2 = availability_info_tbl built_once_db"
    "length (books_details_tbl d2) = length (books_details_tbl built_once_db) + length (raw_books one_book_db)"
    by blast
  have "product_type_tbl d2 = [(1, ustr ''Books'')]" "category_info_tbl d2 = [(1, ustr ''Poetry'')]"
    "rating_info_tbl d2 = [(1, 3)]" "availability_info_tbl d2 = [(1, ustr ''In Stock'')]"
    "length (books_details_tbl d2) = 2"
    by (simp_all add: d2 built_once_db_def one_book_db_def empty_db_def)
  with d2(1) show ?thesis by blast
qed

section \<open>Properties of the title across the stages\<close>

lemma apply_rows_nth:
  "apply_rows f xs = Inr ys \<Longrightarrow>
   length ys = length xs \<and> (\<forall>k<length xs. f (xs ! k) = Inr (ys ! k))"
proof (induction xs arbitrary: ys)
  case Nil
  then show ?case by simp
next
  case (Cons x xs)
  from Cons.prems obtain y ys' where y: "f x = Inr y" and ys': "apply_rows f xs = Inr ys'"
    and ys: "ys = y # ys'"
    by (auto split: sum.splits)
  from Cons.IH [OF ys'] have l: "length ys' = length xs"
    and n: "\<forall>k<length xs. f (xs ! k) = Inr (ys' ! k)" by simp_all
  have "f ((x # xs) ! k) = Inr (ys ! k)" if "k < length (x # xs)" for k
    using that y n ys by (cases k) simp_all
  with l ys show ?case by simp
qed

lemma bind_returns: "bind m f = Inr y \<longleftrightarrow> (\<exists>x. m = Inr x \<and> f x = Inr y)"
  by (cases m) (simp_all add: bind_def)

lemma varchar_returns: "varchar n x = Inr y \<Longrightarrow> y = map_option (take n) x"
  by (cases x) (auto simp: varchar_def split: if_splits)

lemma stage_row_title:
  assumes "stage_row numeric r = Inr b"
  shows "title b \<noteq> None \<and> title b = map_option (take 255) (title r)"
proof -
  from assms obtain c1 where c1: "varchar 255 (title r) = Inr c1" and t: "title b = c1" and n: "c1 \<noteq> None"
    by (auto simp: stage_row_def bind_returns split: if_splits)
  from c1 have "c1 = map_option (take 255) (title r)" by (rule varchar_returns)
  with t n show ?thesis by simp
qed

lemma insert_details_titles:
  "insert_details rbs (tbl, seq) = Inr (tbl', seq') \<Longrightarrow>
   map (\<lambda>bd. Some (bd_title bd)) tbl' = map (\<lambda>bd. Some (bd_title bd)) tbl @ map title rbs"
  by (induction rbs arbitrary: tbl seq) (auto split: option.splits)

lemma populate_dimensions_details:
  assumes "populate_dimensions d = Inr d'"
  shows "\<exists>seq'. insert_details (raw_books d) (books_details_tbl d, books_details_id_seq d) =
           Inr (books_details_tbl d', seq')"
proof -
  from assms obtain d1 d2 d3 where
    s1: "insert_product_type d = Inr d1" and s2: "insert_books_details d1 = Inr d2" and
    s3: "insert_category_info d2 = Inr d3" and
    s4: "d' = insert_availability_info (insert_rating_info d3)"
    by (auto simp: populate_dimensions_def split: sum.splits)
  from s1 have d1: "raw_books d1 = raw_books d" "books_details_tbl d1 = books_details_tbl d"
    "books_details_id_seq d1 = books_details_id_seq d"
    by (auto simp: insert_product_type_def case_prod_beta split: sum.splits)
  from s2 obtain tbl2 seq2 where
    i2: "insert_details (raw_books d1) (books_details_tbl d1, books_details_id_seq d1) = Inr (tbl2, seq2)"
    and d2: "books_details_tbl d2 = tbl2"
    by (auto simp: insert_books_details_def split: sum.splits)
  from s3 have d3: "books_details_tbl d3 = books_details_tbl d2"
    by (auto simp: insert_category_info_def case_prod_beta split: sum.splits)
  have "books_details_tbl d' = tbl2"
    by (simp add: s4 d3 d2 insert_availability_info_def insert_rating_info_def case_prod_beta)
  with i2 d1 show ?thesis by simp
qed

text \<open>
  Claim C6 (title drop), as amended. The records with a null title are discarded: the
  titles of the records that \<open>transform_data\<close> returns are the non-null titles of the
  de-duplicated input, in order, so no returned record has a null title (an empty title
  is not null and is kept). When \<open>load_to_postgres\<close> returns, it has appended one staging
  row for every record of the frame, in order, with the record's title (cut to 255
  characters when only spaces exceed them), which is not null: a staging table without
  a null title stays one. When
  \<open>build_data_warehouse\<close> returns, no staging row has a null title, the staging table is
  as it was, and the titles of \<open>books_details\<close>, the one table downstream with a title,
  are those it held followed by the titles of the staging rows.
\<close>

theorem null_title_dropped:
  "(transform_data py_float books = Inr out \<longrightarrow>
      map title out = filter (\<lambda>t. t \<noteq> None) (map title (drop_duplicates books)) \<and>
      (\<forall>r\<in>set out. title r \<noteq> None)) \<and>
   (load_to_postgres numeric df d = Inr d1 \<longrightarrow>
      (\<exists>staged. d1 = d\<lparr>raw_books := raw_books d @ staged\<rparr> \<and> length staged = length df \<and>
         (\<forall>k<length df. title (staged ! k) \<noteq> None \<and>
            title (staged ! k) = map_option (take 255) (title (df ! k)))) \<and>
      ((\<forall>rb\<in>set (raw_books d). title rb \<noteq> None) \<longrightarrow>
       (\<forall>rb\<in>set (raw_books d1). title rb \<noteq> None))) \<and>
   (build_data_warehouse d1 = Inr d2 \<longrightarrow>
      raw_books d2 = raw_books d1 \<and> (\<forall>rb\<in>set (raw_books d1). title rb \<noteq> None) \<and>
      map (\<lambda>bd. Some (bd_title bd)) (books_details_tbl d2) =
        map (\<lambda>bd. Some (bd_title bd)) (books_details_tbl d1) @ map title (raw_books d1))"
proof -
  have frame: "transform_data py_float books = Inr out \<longrightarrow>
      map title out = filter (\<lambda>t. t \<noteq> None) (map title (drop_duplicates books)) \<and>
      (\<forall>r\<in>set out. title r \<noteq> None)"
  proof
    assume t: "transform_data py_float books = Inr out"
    then obtain df' where df: "cleaned py_float books = Inr df'" "out = reconcile df'"
      by (auto simp: transform_data_def split: sum.splits)
    from df(1) cleaned_cases [of books py_float]
    have "map title df' = filter (\<lambda>t. t \<noteq> None) (map title (drop_duplicates books))"
      by auto
    with df(2) have m: "map title out = filter (\<lambda>t. t \<noteq> None) (map title (drop_duplicates books))"
      by (simp add: reconcile_columns)
    have "title r \<noteq> None" if "r \<in> set out" for r
    proof -
      from that have "title r \<in> set (map title out)" by simp
      with m show ?thesis by simp
    qed
    with m show "map title out = filter (\<lambda>t. t \<noteq> None) (map title (drop_duplicates books)) \<and>
      (\<forall>r\<in>set out. title r \<noteq> None)"
      by blast
  qed
  have staging: "load_to_postgres numeric df d = Inr d1 \<longrightarrow>
      (\<exists>staged. d1 = d\<lparr>raw_books := raw_books d @ staged\<rparr> \<and> length staged = length df \<and>
         (\<forall>k<length df. title (staged ! k) \<noteq> None \<and>
            title (staged ! k) = map_option (take 255) (title (df ! k)))) \<and>
      ((\<forall>rb\<in>set (raw_books d). title rb \<noteq> None) \<longrightarrow>
       (\<forall>rb\<in>set (raw_books d1). title rb \<noteq> None))"
  proof
    assume "load_to_postgres numeric df d = Inr d1"
    then obtain staged where s: "apply_rows (stage_row numeric) df = Inr staged"
      and d1: "d1 = d\<lparr>raw_books := raw_books d @ staged\<rparr>"
      by (auto simp: load_to_postgres_def split: sum.splits)
    from apply_rows_nth [OF s] have l: "length staged = length df"
      and n: "\<forall>k<length df. stage_row numeric (df ! k) = Inr (staged ! k)" by simp_all
    have t: "title (staged ! k) \<noteq> None \<and> title (staged ! k) = map_option (take 255) (title (df ! k))"
      if "k < length df" for k
      using that n stage_row_title by blast
    have "title rb \<noteq> None" if "rb \<in> set staged" for rb
    proof -
      from that obtain k where k: "k < length staged" and rb: "rb = staged ! k"
        by (auto simp: in_set_conv_nth)
      from k l have "k < length df" by simp
      from t [OF this] have "title (staged ! k) \<noteq> None" by blast
      then show ?thesis unfolding rb .
    qed
    with d1 have "(\<forall>rb\<in>set (raw_books d). title rb \<noteq> None) \<longrightarrow>
       (\<forall>rb\<in>set (raw_books d1). title rb \<noteq> None)"
      by auto
    with d1 l t show "(\<exists>staged. d1 = d\<lparr>raw_books := raw_books d @ staged\<rparr> \<and> length staged = length df \<and>
         (\<forall>k<length df. title (staged ! k) \<noteq> None \<and>
            title (staged ! k) = map_option (take 255) (title (df ! k)))) \<and>
      ((\<forall>rb\<in>set (raw_books d). title rb \<noteq> None) \<longrightarrow>
       (\<forall>rb\<in>set (raw_books d1). title rb \<noteq> None))"
      by blast
  qed
  have downstream: "build_data_warehouse d1 = Inr d2 \<longrightarrow>
      raw_books d2 = raw_books d1 \<and> (\<forall>rb\<in>set (raw_books d1). title rb \<noteq> None) \<and>
      map (\<lambda>bd. Some (bd_title bd)) (books_details_tbl d2) =
        map (\<lambda>bd. Some (bd_title bd)) (books_details_tbl d1) @ map title (raw_books d1)"
  proof
    assume b: "build_data_warehouse d1 = Inr d2"
    then obtain p where p: "populate_dimensions d1 = Inr p" and d2: "d2 = insert_books_fact p"
      by (auto simp: build_data_warehouse_def split: sum.splits)
    note r = populate_dimensions_result [OF p]
    have 1: "raw_books d2 = raw_books d1" by (simp add: d2 insert_books_fact_frame r)
    from r(11) have 2: "\<forall>rb\<in>set (raw_books d1). title rb \<noteq> None" by (simp add: list_ex_iff)
    from populate_dimensions_details [OF p] obtain seq' where
      "insert_details (raw_books d1) (books_details_tbl d1, books_details_id_seq d1) =
         Inr (books_details_tbl p, seq')" by blast
    then have "map (\<lambda>bd. Some (bd_title bd)) (books_details_tbl p) =
        map (\<lambda>bd. Some (bd_title bd)) (books_details_tbl d1) @ map title (raw_books d1)"
      by (rule insert_details_titles)
    then have 3: "map (\<lambda>bd. Some (bd_title bd)) (books_details_tbl d2) =
          map (\<lambda>bd. Some (bd_title bd)) (books_details_tbl d1) @ map title (raw_books d1)"
      by (simp add: d2 insert_books_fact_frame)
    from 1 2 3 show "raw_books d2 = raw_books d1 \<and> (\<forall>rb\<in>set (raw_books d1). title rb \<noteq> None) \<and>
      map (\<lambda>bd. Some (bd_title bd)) (books_details_tbl d2) =
        map (\<lambda>bd. Some (bd_title bd)) (books_details_tbl d1) @ map title (raw_books d1)"
      by blast
  qed
  from frame staging downstream show ?thesis by blast
qed

lemmas load_eval =
  load_to_postgres_def stage_row_def bind_def varchar_def integer_def has_nul_def numeric_10_2_def

lemma untitled_transformed:
  "transform_data read_decimal [attic\<lparr>title := None\<rparr>, attic] = Inr [attic_row]"
  by (simp add: transform_eval attic_def attic_row_def string_eval reader_eval round_eval)

lemma attic_loaded: "load_to_postgres numeric_10_2 [attic_row] empty_db = Inr one_book_db"
  by (simp add: load_eval attic_row_def attic_book_def one_book_db_def empty_db_def ustr_def fl_eval)

theorem null_title_dropped_witness:
  "transform_data read_decimal [attic\<lparr>title := None\<rparr>, attic] = Inr [attic_row] \<and>
   title attic_row = Some (ustr ''A Light in the Attic'') \<and>
   load_to_postgres numeric_10_2 [attic_row] empty_db = Inr one_book_db \<and>
   map title (raw_books one_book_db) = [Some (ustr ''A Light in the Attic'')] \<and>
   build_data_warehouse one_book_db = Inr built_once_db \<and>
   map bd_title (books_details_tbl built_once_db) = [ustr ''A Light in the Attic'']"
  using null_title_dropped [of read_decimal "[attic\<lparr>title := None\<rparr>, attic]" "[attic_row]"
      numeric_10_2 "[attic_row]" empty_db one_book_db built_once_db]
    untitled_transformed attic_loaded built_once
  by (simp add: attic_row_def attic_book_def one_book_db_def empty_db_def built_once_db_def)

text \<open>
  Claim C6 as stated fails for an empty title: \<open>dropna\<close> discards nulls only, and a record
  whose title is the empty string is returned with that title and loaded into the staging
  table.
\<close>

theorem empty_title_kept:
  "transform_data read_decimal [attic\<lparr>title := Some []\<rparr>] = Inr [attic_row\<lparr>title := Some []\<rparr>] \<and>
   load_to_postgres numeric_10_2 [attic_row\<lparr>title := Some []\<rparr>] empty_db =
     Inr (empty_db\<lparr>raw_books := [attic_book\<lparr>title := Some []\<rparr>]\<rparr>)"
  by (simp add: transform_eval attic_def attic_row_def string_eval reader_eval round_eval
      load_eval attic_book_def empty_db_def)

section \<open>Properties of the fact table\<close>

























end
